theory Spec2Isabelle
  imports Main "HOL-Library.Sublist"
begin

section \<open>Text\<close>

text \<open>
  A Python \<open>str\<close> is a sequence of Unicode code points; the pattern of \<open>parse_delay\<close> names
  the en dash U+2013, so a text is a list of code points rather than of 8-bit characters.
  \<open>str\<close> turns an ASCII literal into such a text.
\<close>

type_synonym ustr = "nat list"

definition str :: "string \<Rightarrow> ustr" where
  "str s = map of_char s"

text \<open>
  \<open>str.lower\<close>: the letters A-Z and the upper-case letters of Latin-1 move by 32. The case
  table of the code points above 255 is not written out; no code point there lowers to an
  ASCII character other than \<open>i\<close> and \<open>k\<close>, which no test of this program looks for.
\<close>

definition lower_cp :: "nat \<Rightarrow> nat" where
  "lower_cp c = (if (65 \<le> c \<and> c \<le> 90) \<or> (192 \<le> c \<and> c \<le> 214) \<or> (216 \<le> c \<and> c \<le> 222)
                 then c + 32 else c)"

definition lower :: "ustr \<Rightarrow> ustr" where
  "lower s = map lower_cp s"

text \<open>\<open>str.isspace\<close> of one code point, and \<open>str.strip()\<close> with no argument.\<close>

definition isspace :: "nat \<Rightarrow> bool" where
  "isspace c = ((9 \<le> c \<and> c \<le> 13) \<or> (28 \<le> c \<and> c \<le> 32) \<or> c = 133 \<or> c = 160 \<or> c = 5760
                \<or> (8192 \<le> c \<and> c \<le> 8202) \<or> c = 8232 \<or> c = 8233 \<or> c = 8239 \<or> c = 8287
                \<or> c = 12288)"

definition strip :: "ustr \<Rightarrow> ustr" where
  "strip s = rev (dropWhile isspace (rev (dropWhile isspace s)))"

text \<open>\<open>needle in hay\<close> on two texts: \<open>needle\<close> occurs as a contiguous run.\<close>

fun str_in :: "ustr \<Rightarrow> ustr \<Rightarrow> bool" where
  "str_in needle [] = (needle = [])"
| "str_in needle (c # cs) = (prefix needle (c # cs) \<or> str_in needle cs)"

text \<open>\<open>sep.join(parts)\<close>.\<close>

fun join :: "ustr \<Rightarrow> ustr list \<Rightarrow> ustr" where
  "join sep [] = []"
| "join sep [x] = x"
| "join sep (x # y # ys) = x @ sep @ join sep (y # ys)"

section \<open>Exceptions\<close>

datatype error =
    KeyError ustr
  | TypeError ustr
  | ValueError ustr
  | AttributeError ustr
  | JSONDecodeError ustr
  | StorageError ustr
  | BaseException ustr

text \<open>
  \<open>repr\<close> of a text, as it appears in the message of \<open>int\<close> and in \<open>str(KeyError(k))\<close>:
  single quotes unless the text has a single quote and no double quote; backslash, the
  quote and the control characters escaped. Code points above 126 are left as they are.
\<close>

definition hex_digit :: "nat \<Rightarrow> nat" where
  "hex_digit n = (if n < 10 then 48 + n else 87 + n)"

definition repr_cp :: "nat \<Rightarrow> nat \<Rightarrow> ustr" where
  "repr_cp q c =
     (if c = 92 then [92, 92]
      else if c = q then [92, q]
      else if c = 9 then [92, 116]
      else if c = 10 then [92, 110]
      else if c = 13 then [92, 114]
      else if c < 32 \<or> c = 127 then [92, 120, hex_digit (c div 16), hex_digit (c mod 16)]
      else [c])"

definition py_repr :: "ustr \<Rightarrow> ustr" where
  "py_repr s = (let q = (if 39 \<in> set s \<and> 34 \<notin> set s then 34 else 39)
                in [q] @ concat (map (repr_cp q) s) @ [q])"

fun str_of_error :: "error \<Rightarrow> ustr" where
  "str_of_error (KeyError k) = py_repr k"
| "str_of_error (TypeError m) = m"
| "str_of_error (ValueError m) = m"
| "str_of_error (AttributeError m) = m"
| "str_of_error (JSONDecodeError m) = m"
| "str_of_error (StorageError m) = m"
| "str_of_error (BaseException m) = m"

text \<open>
  \<open>isinstance(e, Exception)\<close>. \<open>BaseException\<close> stands for the exceptions whose class is not
  under \<open>Exception\<close> (\<open>KeyboardInterrupt\<close>, \<open>SystemExit\<close>, \<open>GeneratorExit\<close>); every other
  constructor is a class under \<open>Exception\<close>.
\<close>

fun is_Exception :: "error \<Rightarrow> bool" where
  "is_Exception (BaseException m) = False"
| "is_Exception ex = True"

section \<open>Values\<close>

text \<open>
  The values \<open>json.loads\<close> builds. A float is kept as the two things the program can see of
  it: whether it is non-zero (its truth value) and the text \<open>json.dumps\<close> writes for it.
  A \<open>dict\<close> is an association list in insertion order with distinct keys.
\<close>

datatype pyfloat = PyFloat (nonzero: bool) (float_repr: ustr)

datatype json =
    JNull
  | JBool bool
  | JInt int
  | JFloat pyfloat
  | JStr ustr
  | JArr "json list"
  | JObj "(ustr \<times> json) list"

type_synonym dict = "(ustr \<times> json) list"

text \<open>\<open>d.get(k)\<close>, \<open>k in d\<close> and \<open>d[k] = v\<close> (an existing key keeps its place).\<close>

definition dict_get :: "dict \<Rightarrow> ustr \<Rightarrow> json option" where
  "dict_get d k = map_of d k"

fun dict_set :: "dict \<Rightarrow> ustr \<Rightarrow> json \<Rightarrow> dict" where
  "dict_set [] k v = [(k, v)]"
| "dict_set ((k', v') # d) k v = (if k' = k then (k', v) # d else (k', v') # dict_set d k v)"

definition dict_update :: "dict \<Rightarrow> dict \<Rightarrow> dict" where
  "dict_update d e = foldl (\<lambda>acc (k, v). dict_set acc k v) d e"

fun type_name :: "json \<Rightarrow> ustr" where
  "type_name JNull = str ''NoneType''"
| "type_name (JBool b) = str ''bool''"
| "type_name (JInt i) = str ''int''"
| "type_name (JFloat f) = str ''float''"
| "type_name (JStr s) = str ''str''"
| "type_name (JArr xs) = str ''list''"
| "type_name (JObj d) = str ''dict''"

text \<open>The truth value of a value, as \<open>not delay_str\<close> tests it.\<close>

fun truthy :: "json \<Rightarrow> bool" where
  "truthy JNull = False"
| "truthy (JBool b) = b"
| "truthy (JInt i) = (i \<noteq> 0)"
| "truthy (JFloat f) = nonzero f"
| "truthy (JStr s) = (s \<noteq> [])"
| "truthy (JArr xs) = (xs \<noteq> [])"
| "truthy (JObj d) = (d \<noteq> [])"

text \<open>The \<open>AttributeError\<close> of a method that the value's type does not have.\<close>

definition no_attribute :: "json \<Rightarrow> ustr \<Rightarrow> error" where
  "no_attribute v a =
     AttributeError ([39] @ type_name v @ [39] @ str '' object has no attribute '' @ [39] @ a @ [39])"

section \<open>The delay parser\<close>

text \<open>
  \<open>int(s)\<close> on a text: surrounding white space, an optional sign, then decimal digits with
  single underscores between them. Anything else raises \<open>ValueError\<close>.
\<close>

definition isdigit :: "nat \<Rightarrow> bool" where
  "isdigit c = (48 \<le> c \<and> c \<le> 57)"

fun int_digits :: "ustr \<Rightarrow> int \<Rightarrow> int option" where
  "int_digits [] acc = Some acc"
| "int_digits (c # cs) acc =
     (if isdigit c then int_digits cs (10 * acc + int (c - 48))
      else if c = 95 \<and> cs \<noteq> [] \<and> isdigit (hd cs) then int_digits cs acc
      else None)"

definition invalid_literal :: "ustr \<Rightarrow> error" where
  "invalid_literal s = ValueError (str ''invalid literal for int() with base 10: '' @ py_repr s)"

definition py_int :: "ustr \<Rightarrow> error + int" where
  "py_int s =
     (let t = strip s;
          neg = (t \<noteq> [] \<and> hd t = 45);
          ds = (if t \<noteq> [] \<and> (hd t = 45 \<or> hd t = 43) then tl t else t)
      in if ds \<noteq> [] \<and> isdigit (hd ds)
         then (case int_digits ds 0 of
                 Some n \<Rightarrow> Inr (if neg then - n else n)
               | None \<Rightarrow> Inl (invalid_literal s))
         else Inl (invalid_literal s))"

text \<open>
  The two patterns are raw strings with a doubled backslash: \<open>r"(\\d+)"\<close>. In a regular
  expression \<open>\\\<close> is one literal backslash and \<open>d+\<close> is one or more letters d, so the group
  matches a backslash followed by a run of the letter d, not a run of digits.
  \<open>re_group\<close> matches that group at the start of a text and gives the group and the rest.
  The run is greedy, and what follows it in either pattern is not a letter d, so the
  longest run is the only one that can lead to a match.
\<close>

definition re_group :: "ustr \<Rightarrow> (ustr \<times> ustr) option" where
  "re_group s =
     (case s of
        [] \<Rightarrow> None
      | c # cs \<Rightarrow>
          if c = 92 \<and> takeWhile (\<lambda>x. x = 100) cs \<noteq> []
          then Some (c # takeWhile (\<lambda>x. x = 100) cs, dropWhile (\<lambda>x. x = 100) cs)
          else None)"

text \<open>
  The range pattern: the group, one separator (the hyphen, 45, or the en dash, 8211), the
  group again. \<open>re.match\<close> anchors it at the start of the text; the result is the two groups.
\<close>

definition re_match_range :: "ustr \<Rightarrow> (ustr \<times> ustr) option" where
  "re_match_range s =
     (case re_group s of
        None \<Rightarrow> None
      | Some (g1, r1) \<Rightarrow>
          (case r1 of
             [] \<Rightarrow> None
           | c # r2 \<Rightarrow>
               if c = 45 \<or> c = 8211
               then (case re_group r2 of None \<Rightarrow> None | Some (g2, r3) \<Rightarrow> Some (g1, g2))
               else None))"

text \<open>\<open>re.match(r"(\\d+)", s)\<close>: group 1.\<close>

definition re_match_single :: "ustr \<Rightarrow> ustr option" where
  "re_match_single s = (case re_group s of None \<Rightarrow> None | Some (g, r) \<Rightarrow> Some g)"

definition parse_delay :: "json \<Rightarrow> error + int" where
  "parse_delay delay_str =
     (if \<not> truthy delay_str then Inr 0
      else case delay_str of
        JStr s \<Rightarrow>
          (let t = strip (lower s) in
           if str_in (str ''hour'') t then Inr 60
           else
             (let match_range = re_match_range t;
                  match_single = re_match_single t
              in case match_range of
                   Some (g1, g2) \<Rightarrow>
                     (case py_int g1 of
                        Inl e \<Rightarrow> Inl e
                      | Inr min_d \<Rightarrow>
                          (case py_int g2 of
                             Inl e \<Rightarrow> Inl e
                           | Inr max_d \<Rightarrow> Inr ((min_d + max_d) div 2)))
                 | None \<Rightarrow>
                     (case match_single of
                        Some g \<Rightarrow> py_int g
                      | None \<Rightarrow> Inr 0)))
      | v \<Rightarrow> Inl (no_attribute v (str ''lower'')))"

section \<open>The priority table\<close>

definition ALERT_PRIORITY_MAP :: dict where
  "ALERT_PRIORITY_MAP =
     [(str ''Mechanical Problem'', JStr (str ''high'')),
      (str ''Flat Tire'', JStr (str ''high'')),
      (str ''Won'' @ [39] @ str ''t Start'', JStr (str ''high'')),
      (str ''Accident'', JStr (str ''high'')),
      (str ''Heavy Traffic'', JStr (str ''medium'')),
      (str ''Weather Conditions'', JStr (str ''medium'')),
      (str ''Delayed by School'', JStr (str ''low'')),
      (str ''Other'', JStr (str ''low'')),
      (str ''Problem Run'', JStr (str ''low''))]"

text \<open>
  \<open>ALERT_PRIORITY_MAP.get(reason, "low")\<close>. The lookup hashes \<open>reason\<close>: a list or a dict is
  unhashable and raises \<open>TypeError\<close>; every other value that is not a key gives the default.
\<close>

definition alert_priority :: "json \<Rightarrow> error + json" where
  "alert_priority reason =
     (case reason of
        JArr xs \<Rightarrow> Inl (TypeError (str ''unhashable type: '' @ [39] @ str ''list'' @ [39]))
      | JObj d \<Rightarrow> Inl (TypeError (str ''unhashable type: '' @ [39] @ str ''dict'' @ [39]))
      | JStr s \<Rightarrow>
          Inr (case dict_get ALERT_PRIORITY_MAP s of Some p \<Rightarrow> p | None \<Rightarrow> JStr (str ''low''))
      | _ \<Rightarrow> Inr (JStr (str ''low'')))"

section \<open>JSON text\<close>

text \<open>
  \<open>json.dumps(v)\<close> with the default options: items separated by a comma and a space, keys
  from values by a colon and a space, every code point outside the printable ASCII range
  escaped (above U+FFFF as a surrogate pair).
\<close>

definition hex4 :: "nat \<Rightarrow> ustr" where
  "hex4 n = [hex_digit (n div 4096 mod 16), hex_digit (n div 256 mod 16),
             hex_digit (n div 16 mod 16), hex_digit (n mod 16)]"

definition escape_cp :: "nat \<Rightarrow> ustr" where
  "escape_cp c =
     (if c = 34 then [92, 34]
      else if c = 92 then [92, 92]
      else if c = 10 then [92, 110]
      else if c = 13 then [92, 114]
      else if c = 9 then [92, 116]
      else if c = 8 then [92, 98]
      else if c = 12 then [92, 102]
      else if 32 \<le> c \<and> c \<le> 126 then [c]
      else if c < 65536 then [92, 117] @ hex4 c
      else [92, 117] @ hex4 (55296 + (c - 65536) div 1024 mod 1024)
           @ [92, 117] @ hex4 (56320 + (c - 65536) mod 1024))"

definition dumps_str :: "ustr \<Rightarrow> ustr" where
  "dumps_str s = [34] @ concat (map escape_cp s) @ [34]"

fun dec :: "nat \<Rightarrow> ustr" where
  "dec n = (if n < 10 then [48 + n] else dec (n div 10) @ [48 + n mod 10])"

declare dec.simps [simp del]

fun dumps :: "json \<Rightarrow> ustr" where
  "dumps JNull = str ''null''"
| "dumps (JBool b) = (if b then str ''true'' else str ''false'')"
| "dumps (JInt i) = (if i < 0 then 45 # dec (nat (- i)) else dec (nat i))"
| "dumps (JFloat f) = float_repr f"
| "dumps (JStr s) = dumps_str s"
| "dumps (JArr xs) = [91] @ join (str '', '') (map dumps xs) @ [93]"
| "dumps (JObj d) =
     [123] @ join (str '', '') (map (\<lambda>kv. dumps_str (fst kv) @ str '': '' @ dumps (snd kv)) d)
     @ [125]"

text \<open>
  \<open>json.loads(s)\<close> on a text, as one pass over the code points with a stack of the open
  arrays and objects. \<open>py_float\<close> is the conversion of a number with a fraction or an
  exponent to a float, which is outside this model. The message of a \<open>JSONDecodeError\<close> is
  kept without its line and column.
\<close>

datatype frame =
    FArr "json list"
  | FObj dict ustr

datatype numstate = NMinus | NZero | NInt | NDot | NFrac | NExp | NExpSign | NExpDigits

datatype mode =
    MValue
  | MFirst
  | MKeyFirst
  | MKey
  | MColon
  | MAfter
  | MDone json
  | MStr bool ustr "nat option"
  | MEsc bool ustr "nat option"
  | MHex bool ustr "nat option" "nat list"
  | MNum numstate bool nat ustr
  | MLit ustr json
  | MFail error

type_synonym pstate = "mode \<times> frame list"

definition decode_error :: "ustr \<Rightarrow> pstate" where
  "decode_error m = (MFail (JSONDecodeError m), [])"

definition invalid_escape :: ustr where
  "invalid_escape = str ''Invalid '' @ [92] @ str ''escape''"

definition invalid_uXXXX :: ustr where
  "invalid_uXXXX = str ''Invalid '' @ [92] @ str ''uXXXX escape''"

definition is_ws :: "nat \<Rightarrow> bool" where
  "is_ws c = (c = 32 \<or> c = 9 \<or> c = 10 \<or> c = 13)"

text \<open>A finished value goes to the innermost open container, or is the result.\<close>

fun close_value :: "json \<Rightarrow> frame list \<Rightarrow> pstate" where
  "close_value v [] = (MDone v, [])"
| "close_value v (FArr xs # stack) = (MAfter, FArr (v # xs) # stack)"
| "close_value v (FObj d k # stack) = (MAfter, FObj (dict_set d k v) k # stack)"

text \<open>The code point after a finished value.\<close>

fun after_value :: "pstate \<Rightarrow> nat \<Rightarrow> pstate" where
  "after_value (MDone v, stack) c =
     (if is_ws c then (MDone v, stack) else decode_error (str ''Extra data''))"
| "after_value (MAfter, FArr xs # stack) c =
     (if is_ws c then (MAfter, FArr xs # stack)
      else if c = 44 then (MValue, FArr xs # stack)
      else if c = 93 then close_value (JArr (rev xs)) stack
      else decode_error (str ''Expecting , delimiter''))"
| "after_value (MAfter, FObj d k # stack) c =
     (if is_ws c then (MAfter, FObj d k # stack)
      else if c = 44 then (MKey, FObj d k # stack)
      else if c = 125 then close_value (JObj d) stack
      else decode_error (str ''Expecting , delimiter''))"
| "after_value st c = st"

text \<open>The first code point of a value.\<close>

definition start_value :: "frame list \<Rightarrow> nat \<Rightarrow> pstate" where
  "start_value stack c =
     (if c = 34 then (MStr False [] None, stack)
      else if c = 123 then (MKeyFirst, FObj [] [] # stack)
      else if c = 91 then (MFirst, FArr [] # stack)
      else if c = 45 then (MNum NMinus True 0 [c], stack)
      else if c = 48 then (MNum NZero False 0 [c], stack)
      else if 49 \<le> c \<and> c \<le> 57 then (MNum NInt False (c - 48) [c], stack)
      else if c = 110 then (MLit (str ''ull'') JNull, stack)
      else if c = 116 then (MLit (str ''rue'') (JBool True), stack)
      else if c = 102 then (MLit (str ''alse'') (JBool False), stack)
      else if c = 78 then (MLit (str ''aN'') (JFloat (PyFloat True (str ''NaN''))), stack)
      else if c = 73 then (MLit (str ''nfinity'') (JFloat (PyFloat True (str ''Infinity''))), stack)
      else decode_error (str ''Expecting value''))"

text \<open>
  Inside a string. A high surrogate written as a \<open>\u\<close> escape waits in \<open>pend\<close>: a low
  surrogate escape right after it makes one code point of the two.
\<close>

definition flush :: "nat option \<Rightarrow> ustr \<Rightarrow> ustr" where
  "flush pend acc = (case pend of None \<Rightarrow> acc | Some h \<Rightarrow> h # acc)"

definition close_string :: "bool \<Rightarrow> ustr \<Rightarrow> frame list \<Rightarrow> pstate" where
  "close_string is_key s stack =
     (if is_key
      then (case stack of
              FObj d k # rest \<Rightarrow> (MColon, FObj d s # rest)
            | _ \<Rightarrow> decode_error (str ''Expecting value''))
      else close_value (JStr s) stack)"

definition hex_val :: "nat \<Rightarrow> nat option" where
  "hex_val c =
     (if 48 \<le> c \<and> c \<le> 57 then Some (c - 48)
      else if 97 \<le> c \<and> c \<le> 102 then Some (c - 87)
      else if 65 \<le> c \<and> c \<le> 70 then Some (c - 55)
      else None)"

definition unescape :: "nat \<Rightarrow> nat option" where
  "unescape c =
     (if c = 34 \<or> c = 92 \<or> c = 47 then Some c
      else if c = 98 then Some 8
      else if c = 102 then Some 12
      else if c = 110 then Some 10
      else if c = 114 then Some 13
      else if c = 116 then Some 9
      else None)"

definition end_hex :: "bool \<Rightarrow> ustr \<Rightarrow> nat option \<Rightarrow> nat \<Rightarrow> frame list \<Rightarrow> pstate" where
  "end_hex is_key acc pend v stack =
     (case pend of
        Some h \<Rightarrow>
          if 56320 \<le> v \<and> v \<le> 57343
          then (MStr is_key ((65536 + (h - 55296) * 1024 + (v - 56320)) # acc) None, stack)
          else if 55296 \<le> v \<and> v \<le> 56319 then (MStr is_key (h # acc) (Some v), stack)
          else (MStr is_key (v # h # acc) None, stack)
      | None \<Rightarrow>
          if 55296 \<le> v \<and> v \<le> 56319 then (MStr is_key acc (Some v), stack)
          else (MStr is_key (v # acc) None, stack))"

text \<open>Inside a number: sign, integer part, fraction, exponent.\<close>

definition end_number :: "numstate \<Rightarrow> bool \<Rightarrow> nat \<Rightarrow> ustr \<Rightarrow> (ustr \<Rightarrow> pyfloat) \<Rightarrow> json option" where
  "end_number ns neg n lx py_float =
     (if ns = NZero \<or> ns = NInt then Some (JInt (if neg then - int n else int n))
      else if ns = NFrac \<or> ns = NExpDigits then Some (JFloat (py_float (rev lx)))
      else None)"

definition num_char :: "(ustr \<Rightarrow> pyfloat) \<Rightarrow> numstate \<Rightarrow> bool \<Rightarrow> nat \<Rightarrow> ustr \<Rightarrow> frame list \<Rightarrow> nat
                        \<Rightarrow> pstate" where
  "num_char py_float ns neg n lx stack c =
     (if ns = NMinus \<and> c = 48 then (MNum NZero neg 0 (c # lx), stack)
      else if ns = NMinus \<and> 49 \<le> c \<and> c \<le> 57 then (MNum NInt neg (c - 48) (c # lx), stack)
      else if ns = NMinus \<and> c = 73
        then (MLit (str ''nfinity'') (JFloat (PyFloat True (str ''-Infinity''))), stack)
      else if ns = NMinus then decode_error (str ''Expecting value'')
      else if ns = NInt \<and> isdigit c then (MNum NInt neg (10 * n + (c - 48)) (c # lx), stack)
      else if (ns = NZero \<or> ns = NInt) \<and> c = 46 then (MNum NDot neg n (c # lx), stack)
      else if (ns = NDot \<or> ns = NFrac) \<and> isdigit c then (MNum NFrac neg n (c # lx), stack)
      else if (ns = NZero \<or> ns = NInt \<or> ns = NFrac) \<and> (c = 101 \<or> c = 69)
        then (MNum NExp neg n (c # lx), stack)
      else if ns = NExp \<and> (c = 43 \<or> c = 45) then (MNum NExpSign neg n (c # lx), stack)
      else if (ns = NExp \<or> ns = NExpSign \<or> ns = NExpDigits) \<and> isdigit c
        then (MNum NExpDigits neg n (c # lx), stack)
      else (case end_number ns neg n lx py_float of
              Some v \<Rightarrow> after_value (close_value v stack) c
            | None \<Rightarrow>
                if stack = [] then decode_error (str ''Extra data'')
                else decode_error (str ''Expecting , delimiter'')))"

text \<open>One code point of the input.\<close>

fun step :: "(ustr \<Rightarrow> pyfloat) \<Rightarrow> pstate \<Rightarrow> nat \<Rightarrow> pstate" where
  "step pf (MFail e, stack) c = (MFail e, stack)"
| "step pf (MValue, stack) c = (if is_ws c then (MValue, stack) else start_value stack c)"
| "step pf (MFirst, stack) c =
     (if is_ws c then (MFirst, stack)
      else if c = 93 then close_value (JArr []) (tl stack)
      else start_value stack c)"
| "step pf (MKeyFirst, stack) c =
     (if is_ws c then (MKeyFirst, stack)
      else if c = 125 then close_value (JObj []) (tl stack)
      else if c = 34 then (MStr True [] None, stack)
      else decode_error (str ''Expecting property name enclosed in double quotes''))"
| "step pf (MKey, stack) c =
     (if is_ws c then (MKey, stack)
      else if c = 34 then (MStr True [] None, stack)
      else decode_error (str ''Expecting property name enclosed in double quotes''))"
| "step pf (MColon, stack) c =
     (if is_ws c then (MColon, stack)
      else if c = 58 then (MValue, stack)
      else decode_error (str ''Expecting : delimiter''))"
| "step pf (MAfter, stack) c = after_value (MAfter, stack) c"
| "step pf (MDone v, stack) c = after_value (MDone v, stack) c"
| "step pf (MStr is_key acc pend, stack) c =
     (if c = 34 then close_string is_key (rev (flush pend acc)) stack
      else if c = 92 then (MEsc is_key acc pend, stack)
      else if c < 32 then decode_error (str ''Invalid control character at'')
      else (MStr is_key (c # flush pend acc) None, stack))"
| "step pf (MEsc is_key acc pend, stack) c =
     (if c = 117 then (MHex is_key acc pend [], stack)
      else (case unescape c of
              Some x \<Rightarrow> (MStr is_key (x # flush pend acc) None, stack)
            | None \<Rightarrow> decode_error invalid_escape))"
| "step pf (MHex is_key acc pend ds, stack) c =
     (case hex_val c of
        None \<Rightarrow> decode_error invalid_uXXXX
      | Some d \<Rightarrow>
          if length ds < 3 then (MHex is_key acc pend (ds @ [d]), stack)
          else end_hex is_key acc pend (foldl (\<lambda>a x. 16 * a + x) 0 (ds @ [d])) stack)"
| "step pf (MNum ns neg n lx, stack) c = num_char pf ns neg n lx stack c"
| "step pf (MLit rest v, stack) c =
     (case rest of
        [] \<Rightarrow> after_value (close_value v stack) c
      | r # rs \<Rightarrow>
          if c = r then (if rs = [] then close_value v stack else (MLit rs v, stack))
          else decode_error (str ''Expecting value''))"

text \<open>The end of the input.\<close>

fun finish :: "(ustr \<Rightarrow> pyfloat) \<Rightarrow> pstate \<Rightarrow> error + json" where
  "finish pf (MDone v, stack) = Inr v"
| "finish pf (MFail e, stack) = Inl e"
| "finish pf (MNum ns neg n lx, stack) =
     (case end_number ns neg n lx pf of
        Some v \<Rightarrow>
          if stack = [] then Inr v
          else Inl (JSONDecodeError (str ''Expecting , delimiter''))
      | None \<Rightarrow>
          if ns = NMinus then Inl (JSONDecodeError (str ''Expecting value''))
          else if stack = [] then Inl (JSONDecodeError (str ''Extra data''))
          else Inl (JSONDecodeError (str ''Expecting , delimiter'')))"
| "finish pf (MStr is_key acc pend, stack) =
     Inl (JSONDecodeError (str ''Unterminated string starting at''))"
| "finish pf (MEsc is_key acc pend, stack) =
     Inl (JSONDecodeError (str ''Unterminated string starting at''))"
| "finish pf (MHex is_key acc pend ds, stack) =
     Inl (JSONDecodeError invalid_uXXXX)"
| "finish pf (MAfter, stack) = Inl (JSONDecodeError (str ''Expecting , delimiter''))"
| "finish pf (MColon, stack) = Inl (JSONDecodeError (str ''Expecting : delimiter''))"
| "finish pf (MKey, stack) =
     Inl (JSONDecodeError (str ''Expecting property name enclosed in double quotes''))"
| "finish pf (MKeyFirst, stack) =
     Inl (JSONDecodeError (str ''Expecting property name enclosed in double quotes''))"
| "finish pf (m, stack) = Inl (JSONDecodeError (str ''Expecting value''))"

definition loads :: "(ustr \<Rightarrow> pyfloat) \<Rightarrow> ustr \<Rightarrow> error + json" where
  "loads pf s =
     (if s \<noteq> [] \<and> hd s = 65279
      then Inl (JSONDecodeError (str ''Unexpected UTF-8 BOM (decode using utf-8-sig)''))
      else finish pf (foldl (step pf) (MValue, []) s))"

section \<open>Validation\<close>

definition required_fields :: "ustr list" where
  "required_fields = [str ''Busbreakdown ID'', str ''Route Number'', str ''Reason'']"

text \<open>
  \<open>f in data\<close>: a key of a dict, an element of a list, a run of a text. \<open>json.loads\<close> may
  give any of the three; on every other value the test raises \<open>TypeError\<close>.
\<close>

fun iterable :: "json \<Rightarrow> bool" where
  "iterable (JObj d) = True"
| "iterable (JArr xs) = True"
| "iterable (JStr s) = True"
| "iterable v = False"

fun py_in :: "ustr \<Rightarrow> json \<Rightarrow> bool" where
  "py_in f (JObj d) = (f \<in> set (map fst d))"
| "py_in f (JArr xs) = (JStr f \<in> set xs)"
| "py_in f (JStr s) = str_in f s"
| "py_in f v = False"

definition validate_payload :: "json \<Rightarrow> error + unit" where
  "validate_payload data =
     (if \<not> iterable data
      then Inl (TypeError (str ''argument of type '' @ [39] @ type_name data @ [39]
                           @ str '' is not iterable''))
      else (let missing = filter (\<lambda>f. \<not> py_in f data) required_fields
            in if missing \<noteq> []
               then Inl (ValueError (str ''Missing required fields: '' @ join (str '', '') missing))
               else Inr ()))"

section \<open>The handler\<close>

text \<open>
  What the handler takes from outside: the two names read from the environment when the
  module is loaded, the two readings of the clock (\<open>datetime.utcnow().isoformat()\<close> at the
  archive step and at the persist step), the float conversion of the JSON reader, and the
  outcome of each call to a collaborator (\<open>None\<close>: the call returns; \<open>Some e\<close>: it raises).
\<close>

record env =
  RAW_BUCKET :: ustr
  TABLE_NAME :: ustr
  utcnow_archive :: ustr
  utcnow_persist :: ustr
  py_float :: "ustr \<Rightarrow> pyfloat"
  s3_put_object :: "ustr \<Rightarrow> ustr \<Rightarrow> ustr \<Rightarrow> ustr \<Rightarrow> error option"
  table_put_item :: "ustr \<Rightarrow> dict \<Rightarrow> error option"

text \<open>The calls made to the two collaborators so far, oldest first.\<close>

record put_object_call =
  Bucket :: ustr
  Key :: ustr
  Body :: ustr
  ContentType :: ustr

record world =
  s3_calls :: "put_object_call list"
  table_calls :: "(ustr \<times> dict) list"

record response =
  statusCode :: int
  body :: ustr

text \<open>\<open>json.loads(x)\<close> on any value: only a text is read.\<close>

definition json_loads :: "env \<Rightarrow> json \<Rightarrow> error + json" where
  "json_loads e x =
     (case x of
        JStr s \<Rightarrow> loads (py_float e) s
      | v \<Rightarrow> Inl (TypeError (str ''the JSON object must be str, bytes or bytearray, not ''
                             @ type_name v)))"

text \<open>\<open>d.get(k, default)\<close>.\<close>

definition dict_get_default :: "dict \<Rightarrow> ustr \<Rightarrow> json \<Rightarrow> json" where
  "dict_get_default d k dflt = (case dict_get d k of Some v \<Rightarrow> v | None \<Rightarrow> dflt)"

text \<open>
  The transform step and the item of the persist step. Only a dict has \<open>get\<close>; a list or a
  text that passed the validation raises \<open>AttributeError\<close> here.
\<close>

definition transform :: "json \<Rightarrow> error + dict" where
  "transform data =
     (case data of
        JObj d \<Rightarrow>
          (let reason = dict_get_default d (str ''Reason'') (JStr (str ''Other''))
           in case alert_priority reason of
                Inl e \<Rightarrow> Inl e
              | Inr p \<Rightarrow>
                  (let d1 = dict_set d (str ''alert_priority'') p
                   in case parse_delay (dict_get_default d1 (str ''How Long Delayed'') (JStr [])) of
                        Inl e \<Rightarrow> Inl e
                      | Inr n \<Rightarrow> Inr (dict_set d1 (str ''average_delay_minutes'') (JInt n))))
      | v \<Rightarrow> Inl (no_attribute v (str ''get'')))"

definition make_item :: "env \<Rightarrow> dict \<Rightarrow> error + dict" where
  "make_item e d =
     (case dict_get d (str ''Route Number'') of
        None \<Rightarrow> Inl (KeyError (str ''Route Number''))
      | Some rn \<Rightarrow>
          Inr (dict_update
                 [(str ''RouteNumber'', rn),
                  (str ''OccurredOn'', dict_get_default d (str ''Occurred On'') (JStr (utcnow_persist e)))]
                 d))"

text \<open>
  The body of the \<open>try\<close>: the first exception ends it, with the calls made up to there.
\<close>

definition handler_try :: "env \<Rightarrow> world \<Rightarrow> dict \<Rightarrow> (error + unit) \<times> world" where
  "handler_try e w event =
     (case dict_get event (str ''body'') of
        None \<Rightarrow> (Inl (KeyError (str ''body'')), w)
      | Some b \<Rightarrow>
      (case json_loads e b of
        Inl ex \<Rightarrow> (Inl ex, w)
      | Inr data \<Rightarrow>
      (case validate_payload data of
        Inl ex \<Rightarrow> (Inl ex, w)
      | Inr u \<Rightarrow>
      (let raw_key = utcnow_archive e @ str ''.json'';
           call = \<lparr>Bucket = RAW_BUCKET e, Key = raw_key, Body = dumps data,
                   ContentType = str ''application/json''\<rparr>;
           w1 = w\<lparr>s3_calls := s3_calls w @ [call]\<rparr>
       in case s3_put_object e (RAW_BUCKET e) raw_key (dumps data) (str ''application/json'') of
            Some ex \<Rightarrow> (Inl ex, w1)
          | None \<Rightarrow>
      (case transform data of
        Inl ex \<Rightarrow> (Inl ex, w1)
      | Inr d2 \<Rightarrow>
      (case make_item e d2 of
        Inl ex \<Rightarrow> (Inl ex, w1)
      | Inr item \<Rightarrow>
      (let w2 = w1\<lparr>table_calls := table_calls w1 @ [(TABLE_NAME e, item)]\<rparr>
       in case table_put_item e (TABLE_NAME e) item of
            Some ex \<Rightarrow> (Inl ex, w2)
          | None \<Rightarrow> (Inr (), w2))))))))"

text \<open>
  The handler. \<open>Inr\<close> is the response it returns; \<open>Inl\<close> is an exception that leaves it:
  \<open>except Exception\<close> catches the exceptions of a class under \<open>Exception\<close> and no other.
\<close>

definition handler :: "env \<Rightarrow> world \<Rightarrow> dict \<Rightarrow> (error + response) \<times> world" where
  "handler e w event =
     (case handler_try e w event of
        (Inr u, w') \<Rightarrow>
          (Inr \<lparr>statusCode = 200,
                body = dumps (JObj [(str ''message'', JStr (str ''Processed successfully''))])\<rparr>, w')
      | (Inl ex, w') \<Rightarrow>
          if is_Exception ex
          then (Inr \<lparr>statusCode = 400,
                     body = dumps (JObj [(str ''error'', JStr (str_of_error ex))])\<rparr>, w')
          else (Inl ex, w'))"

text \<open>
  The two responses of the source, the status code of an outcome (none when the handler
  raises), and the outcome of the two collaborator calls as the handler makes them.
\<close>

definition success_response :: response where
  "success_response =
     \<lparr>statusCode = 200,
      body = dumps (JObj [(str ''message'', JStr (str ''Processed successfully''))])\<rparr>"

definition error_response :: "error \<Rightarrow> response" where
  "error_response ex =
     \<lparr>statusCode = 400, body = dumps (JObj [(str ''error'', JStr (str_of_error ex))])\<rparr>"

definition status_of :: "error + response \<Rightarrow> int option" where
  "status_of r = (case r of Inl ex \<Rightarrow> None | Inr resp \<Rightarrow> Some (statusCode resp))"

definition archive_outcome :: "env \<Rightarrow> json \<Rightarrow> error option" where
  "archive_outcome e data =
     s3_put_object e (RAW_BUCKET e) (utcnow_archive e @ str ''.json'') (dumps data)
       (str ''application/json'')"

definition persist_outcome :: "env \<Rightarrow> dict \<Rightarrow> error option" where
  "persist_outcome e item = table_put_item e (TABLE_NAME e) item"

section \<open>Well-formed reader states\<close>

text \<open>
  The keys of a dict are distinct. The reader keeps that for every object it has open and
  for the value it returns.
\<close>

fun frame_ok :: "frame \<Rightarrow> bool" where
  "frame_ok (FArr xs) = True"
| "frame_ok (FObj d k) = distinct (map fst d)"

fun distinct_keys :: "json \<Rightarrow> bool" where
  "distinct_keys (JObj d) = distinct (map fst d)"
| "distinct_keys v = True"

fun state_ok :: "pstate \<Rightarrow> bool" where
  "state_ok (MDone v, stack) = (distinct_keys v \<and> list_all frame_ok stack)"
| "state_ok (MLit r v, stack) = (distinct_keys v \<and> list_all frame_ok stack)"
| "state_ok (m, stack) = list_all frame_ok stack"

text \<open>The reader fails with exceptions of a class under \<open>Exception\<close> only.\<close>

fun fail_ok :: "pstate \<Rightarrow> bool" where
  "fail_ok (MFail ex, stack) = is_Exception ex"
| "fail_ok st = True"

section \<open>Sample invocations\<close>

text \<open>
  An environment in which both collaborators accept every call, one in which the archive
  call is interrupted from the keyboard, one in which the store refuses, a world with no
  call made yet, the event that carries a body text, and the body texts used below.
\<close>

definition quiet_env :: env where
  "quiet_env =
     \<lparr>RAW_BUCKET = str ''raw-bucket'', TABLE_NAME = str ''incidents'',
      utcnow_archive = str ''2024-05-01T08:00:00.000001'',
      utcnow_persist = str ''2024-05-01T08:00:00.250000'',
      py_float = (\<lambda>lx. PyFloat True lx),
      s3_put_object = (\<lambda>b k c t. None),
      table_put_item = (\<lambda>t i. None)\<rparr>"

definition interrupted_env :: env where
  "interrupted_env =
     quiet_env\<lparr>s3_put_object := (\<lambda>b k c t. Some (BaseException (str ''KeyboardInterrupt'')))\<rparr>"

definition throttled_env :: env where
  "throttled_env =
     quiet_env\<lparr>table_put_item := (\<lambda>t i. Some (StorageError (str ''ThrottlingException'')))\<rparr>"

definition no_calls :: world where
  "no_calls = \<lparr>s3_calls = [], table_calls = []\<rparr>"

definition event_of :: "ustr \<Rightarrow> dict" where
  "event_of s = [(str ''body'', JStr s)]"

definition flat_tire_text :: ustr where
  "flat_tire_text =
     str ''{\"Busbreakdown ID\": 1, \"Route Number\": \"12\", \"Reason\": \"Flat Tire\", \"How Long Delayed\": \"10-20 min\"}''"

definition flat_tire_dict :: dict where
  "flat_tire_dict =
     [(str ''Busbreakdown ID'', JInt 1), (str ''Route Number'', JStr (str ''12'')),
      (str ''Reason'', JStr (str ''Flat Tire'')),
      (str ''How Long Delayed'', JStr (str ''10-20 min''))]"

definition compact_text :: ustr where
  "compact_text = str ''{\"Busbreakdown ID\":1,\"Route Number\":\"12\",\"Reason\":\"Other\"}''"

definition spaced_text :: ustr where
  "spaced_text = str ''{\"Busbreakdown ID\": 1, \"Route Number\": \"12\", \"Reason\": \"Other\"}''"

definition compact_dict :: dict where
  "compact_dict =
     [(str ''Busbreakdown ID'', JInt 1), (str ''Route Number'', JStr (str ''12'')),
      (str ''Reason'', JStr (str ''Other''))]"

definition priority_given_text :: ustr where
  "priority_given_text =
     str ''{\"Busbreakdown ID\": 1, \"Route Number\": \"12\", \"Reason\": \"Flat Tire\", \"alert_priority\": \"none\"}''"

definition priority_given_dict :: dict where
  "priority_given_dict =
     [(str ''Busbreakdown ID'', JInt 1), (str ''Route Number'', JStr (str ''12'')),
      (str ''Reason'', JStr (str ''Flat Tire'')), (str ''alert_priority'', JStr (str ''none''))]"

definition no_reason_text :: ustr where
  "no_reason_text = str ''{\"Route Number\": \"12\"}''"

definition no_reason_dict :: dict where
  "no_reason_dict = [(str ''Route Number'', JStr (str ''12''))]"



section \<open>Properties of the delay parser\<close>

lemma dropWhile_snoc_keep: "\<not> P z \<Longrightarrow> dropWhile P (ys @ [z]) = dropWhile P ys @ [z]"
  by (induction ys) auto

lemma strip_backslash: "strip (92 # xs) = 92 # rev (dropWhile isspace (rev xs))"
  by (simp add: strip_def isspace_def dropWhile_snoc_keep)

lemma py_int_backslash: "py_int (92 # xs) = Inl (invalid_literal (92 # xs))"
  by (simp add: py_int_def strip_backslash isdigit_def Let_def)

lemma re_group_backslash: "re_group s = Some (g, r) \<Longrightarrow> \<exists>xs. g = 92 # xs"
  by (auto simp: re_group_def split: list.splits if_splits)

lemma py_int_re_group: "re_group s = Some (g, r) \<Longrightarrow> py_int g = Inl (invalid_literal g)"
  using re_group_backslash py_int_backslash by blast

lemma re_group_no_backslash: "s = [] \<or> hd s \<noteq> 92 \<Longrightarrow> re_group s = None"
  by (auto simp: re_group_def split: list.splits)

text \<open>
  What the parser returns, whatever the text: on a non-empty text it gives 60 when the
  lowered, trimmed text mentions "hour", raises the \<open>ValueError\<close> of \<open>int\<close> when that text
  starts with a backslash and a letter d, and gives 0 in every other case.
\<close>

lemma parse_delay_text:
  "parse_delay (JStr s) =
     (if s = [] then Inr 0
      else if str_in (str ''hour'') (strip (lower s)) then Inr 60
      else case re_group (strip (lower s)) of
             None \<Rightarrow> Inr 0
           | Some (g, r) \<Rightarrow> Inl (invalid_literal g))"
proof -
  have range: "re_match_range t = Some (g1, g2) \<Longrightarrow> \<exists>r. re_group t = Some (g1, r)" for t g1 g2
    by (auto simp: re_match_range_def split: option.splits list.splits if_splits)
  have none: "re_group t = None \<Longrightarrow> re_match_range t = None" for t
    by (simp add: re_match_range_def)
  show ?thesis
  proof (cases "re_group (strip (lower s))")
    case None
    then show ?thesis
      by (simp add: parse_delay_def Let_def none re_match_single_def)
  next
    case (Some gr)
    obtain g r where gr: "gr = (g, r)" by (cases gr)
    have pi: "py_int g = Inl (invalid_literal g)"
      using Some gr py_int_re_group by blast
    show ?thesis
    proof (cases "re_match_range (strip (lower s))")
      case None
      then show ?thesis
        using Some gr pi by (simp add: parse_delay_def Let_def re_match_single_def)
    next
      case (Some gg)
      obtain g1 g2 where gg: "gg = (g1, g2)" by (cases gg)
      from range Some gg \<open>re_group (strip (lower s)) = Some gr\<close> gr have "g1 = g" by fastforce
      then show ?thesis
        using Some gg \<open>re_group (strip (lower s)) = Some gr\<close> gr pi
        by (simp add: parse_delay_def Let_def)
    qed
  qed
qed

lemma parse_delay_value: "parse_delay v = Inr n \<Longrightarrow> n = 0 \<or> n = 60"
proof (cases v)
  case (JStr s)
  assume "parse_delay v = Inr n"
  then show ?thesis
    unfolding JStr parse_delay_text by (auto split: if_splits option.splits)
qed (auto simp: parse_delay_def split: if_splits)

text \<open>
  C1. For a text that does not mention "hour", the parser should give the truncated
  average of a leading range, else the leading integer, else 0, so that "15-30 minutes"
  gives 22. The pattern looks for a backslash and letters d where digits were meant, so
  on "15-30 minutes" neither pattern matches and the parser gives 0.
\<close>

theorem parse_delay_range_text_is_zero:
  "parse_delay (JStr (str ''15-30 minutes'')) = Inr 0"
  by (simp add: parse_delay_def str_def strip_def lower_def lower_cp_def isspace_def
      re_match_range_def re_match_single_def re_group_def)

text \<open>
  C5. Every non-empty text that mentions "hour" once it is lowered and trimmed gives
  exactly 60, whatever number stands in front.
\<close>

theorem parse_delay_hour:
  "s \<noteq> [] \<Longrightarrow> str_in (str ''hour'') (strip (lower s)) \<Longrightarrow> parse_delay (JStr s) = Inr 60"
  by (simp add: parse_delay_def)

theorem parse_delay_hour_witness:
  "str '' 3 HOURS'' \<noteq> [] \<and> str_in (str ''hour'') (strip (lower (str '' 3 HOURS'')))
   \<and> parse_delay (JStr (str '' 3 HOURS'')) = Inr 60"
proof -
  have a: "str '' 3 HOURS'' \<noteq> []" by (simp add: str_def)
  have b: "str_in (str ''hour'') (strip (lower (str '' 3 HOURS'')))"
    by (simp add: str_def strip_def lower_def lower_cp_def isspace_def)
  show ?thesis using a b parse_delay_hour [OF a b] by simp
qed

section \<open>Properties of the priority table\<close>

text \<open>
  C6. The priority is high for Mechanical Problem, Flat Tire, Won't Start and Accident,
  medium for Heavy Traffic and Weather Conditions, low for Delayed by School, Other and
  Problem Run, and low for every reason outside the table.
\<close>

theorem alert_priority_table:
  "(r \<in> {str ''Mechanical Problem'', str ''Flat Tire'', str ''Won'' @ [39] @ str ''t Start'',
          str ''Accident''} \<longrightarrow> alert_priority (JStr r) = Inr (JStr (str ''high'')))
   \<and> (r \<in> {str ''Heavy Traffic'', str ''Weather Conditions''}
        \<longrightarrow> alert_priority (JStr r) = Inr (JStr (str ''medium'')))
   \<and> (r \<in> {str ''Delayed by School'', str ''Other'', str ''Problem Run''}
        \<longrightarrow> alert_priority (JStr r) = Inr (JStr (str ''low'')))
   \<and> (r \<notin> {str ''Mechanical Problem'', str ''Flat Tire'', str ''Won'' @ [39] @ str ''t Start'',
            str ''Accident'', str ''Heavy Traffic'', str ''Weather Conditions'',
            str ''Delayed by School'', str ''Other'', str ''Problem Run''}
        \<longrightarrow> alert_priority (JStr r) = Inr (JStr (str ''low'')))"
  by (simp add: alert_priority_def dict_get_def ALERT_PRIORITY_MAP_def str_def)

theorem alert_priority_table_witness:
  "alert_priority (JStr (str ''Accident'')) = Inr (JStr (str ''high''))
   \<and> alert_priority (JStr (str ''Heavy Traffic'')) = Inr (JStr (str ''medium''))
   \<and> alert_priority (JStr (str ''Other'')) = Inr (JStr (str ''low''))
   \<and> alert_priority (JStr (str ''Unknown Reason'')) = Inr (JStr (str ''low''))"
  using alert_priority_table [of "str ''Accident''"]
    alert_priority_table [of "str ''Heavy Traffic''"]
    alert_priority_table [of "str ''Other''"]
    alert_priority_table [of "str ''Unknown Reason''"]
  by (simp add: str_def)

section \<open>Properties of dicts\<close>

lemma map_of_dict_set: "map_of (dict_set d k v) = (map_of d)(k \<mapsto> v)"
  by (induction d k v rule: dict_set.induct) (auto simp: fun_eq_iff)

lemma keys_dict_set: "map fst (dict_set d k v) = (if k \<in> set (map fst d) then map fst d else map fst d @ [k])"
  by (induction d k v rule: dict_set.induct) auto

lemma distinct_dict_set: "distinct (map fst d) \<Longrightarrow> distinct (map fst (dict_set d k v))"
  by (simp add: keys_dict_set)

lemma dict_get_dict_set: "dict_get (dict_set d k v) k' = (if k' = k then Some v else dict_get d k')"
  by (simp add: dict_get_def map_of_dict_set)

lemma map_of_dict_update: "map_of (dict_update d e) = map_of d ++ map_of (rev e)"
  unfolding dict_update_def
  by (induction e arbitrary: d) (auto simp: map_of_dict_set fun_eq_iff map_add_def split: option.splits)

lemma map_of_rev_distinct: "distinct (map fst e) \<Longrightarrow> map_of (rev e) = map_of e"
proof (induction e)
  case Nil
  then show ?case by simp
next
  case (Cons a e)
  obtain k v where a: "a = (k, v)" by (cases a)
  from Cons.prems a have "map_of e k = None"
    by (simp add: map_of_eq_None_iff)
  with Cons a show ?case
    by (auto simp: fun_eq_iff map_add_def split: option.splits)
qed

lemma dict_get_dict_update:
  "distinct (map fst e) \<Longrightarrow>
   dict_get (dict_update d e) k = (case dict_get e k of Some v \<Rightarrow> Some v | None \<Rightarrow> dict_get d k)"
  by (simp add: dict_get_def map_of_dict_update map_of_rev_distinct map_add_def split: option.splits)

lemma key_set_dict_set: "set (map fst (dict_set d k v)) = insert k (set (map fst d))"
  by (auto simp: keys_dict_set)

lemma keys_dict_update: "set (map fst (dict_update d e)) = set (map fst d) \<union> set (map fst e)"
  unfolding dict_update_def
proof (induction e arbitrary: d)
  case Nil
  then show ?case by simp
next
  case (Cons a e)
  obtain k v where a: "a = (k, v)" by (cases a)
  have "set (map fst (foldl (\<lambda>acc (k, v). dict_set acc k v) (dict_set d k v) e))
        = set (map fst (dict_set d k v)) \<union> set (map fst e)"
    by (rule Cons.IH)
  then show ?case
    unfolding a by (simp only: foldl_Cons prod.case key_set_dict_set) auto
qed

lemma distinct_dict_update: "distinct (map fst d) \<Longrightarrow> distinct (map fst (dict_update d e))"
  unfolding dict_update_def
  by (induction e arbitrary: d) (auto simp: distinct_dict_set)

section \<open>The reader returns dicts with distinct keys\<close>

lemma state_ok_stack: "state_ok (m, stack) \<Longrightarrow> list_all frame_ok stack"
  by (cases m) auto

lemma state_ok_plain: "list_all frame_ok stack \<Longrightarrow> (\<And>v. m \<noteq> MDone v) \<Longrightarrow> (\<And>r v. m \<noteq> MLit r v) \<Longrightarrow> state_ok (m, stack)"
  by (cases m) auto

lemma list_all_tl: "list_all P xs \<Longrightarrow> list_all P (tl xs)"
  by (cases xs) auto

lemma state_ok_error [simp]: "state_ok (decode_error m)"
  by (simp add: decode_error_def)

lemma state_ok_close_value:
  "distinct_keys v \<Longrightarrow> list_all frame_ok stack \<Longrightarrow> state_ok (close_value v stack)"
  by (induction v stack rule: close_value.induct) (auto simp: distinct_dict_set)

lemma state_ok_after_value: "state_ok st \<Longrightarrow> state_ok (after_value st c)"
  by (induction st c rule: after_value.induct) (auto simp: state_ok_close_value)

lemma state_ok_start_value: "list_all frame_ok stack \<Longrightarrow> state_ok (start_value stack c)"
  by (simp add: start_value_def)

lemma state_ok_num_char:
  "list_all frame_ok stack \<Longrightarrow> state_ok (num_char pf ns neg n lx stack c)"
  by (auto simp: num_char_def end_number_def state_ok_after_value state_ok_close_value split: option.splits if_splits)

lemma state_ok_step: "state_ok st \<Longrightarrow> state_ok (step pf st c)"
proof (induction pf st c rule: step.induct)
  case (13 pf rest v stack c)
  then show ?case
    by (auto simp: state_ok_after_value state_ok_close_value split: list.splits)
qed (auto simp: state_ok_start_value state_ok_num_char state_ok_after_value state_ok_close_value
      close_string_def end_hex_def list_all_tl
      split: option.splits list.splits frame.splits)

lemma state_ok_foldl: "state_ok st \<Longrightarrow> state_ok (foldl (step pf) st s)"
  by (induction s arbitrary: st) (auto simp: state_ok_step)

lemma finish_distinct: "state_ok st \<Longrightarrow> finish pf st = Inr v \<Longrightarrow> distinct_keys v"
  by (induction pf st rule: finish.induct) (auto simp: end_number_def split: option.splits if_splits)

lemma loads_distinct: "loads pf s = Inr (JObj d) \<Longrightarrow> distinct (map fst d)"
proof -
  assume a: "loads pf s = Inr (JObj d)"
  have "state_ok (foldl (step pf) (MValue, []) s)" by (rule state_ok_foldl) simp
  with a have "distinct_keys (JObj d)"
    by (auto simp: loads_def split: if_splits dest: finish_distinct)
  then show ?thesis by simp
qed

section \<open>The steps of the handler\<close>

lemma fail_ok_error [simp]: "fail_ok (decode_error m)"
  by (simp add: decode_error_def)

lemma fail_ok_close_value [simp]: "fail_ok (close_value v stack)"
  by (induction v stack rule: close_value.induct) auto

lemma fail_ok_after_value: "fail_ok st \<Longrightarrow> fail_ok (after_value st c)"
  by (induction st c rule: after_value.induct) auto

lemma fail_ok_start_value [simp]: "fail_ok (start_value stack c)"
  by (simp add: start_value_def)

lemma fail_ok_num_char [simp]: "fail_ok (num_char pf ns neg n lx stack c)"
  by (auto simp: num_char_def fail_ok_after_value split: option.splits)

lemma fail_ok_step: "fail_ok st \<Longrightarrow> fail_ok (step pf st c)"
  by (induction pf st c rule: step.induct)
     (auto simp: fail_ok_after_value close_string_def end_hex_def
       split: option.splits list.splits frame.splits)

lemma fail_ok_foldl: "fail_ok st \<Longrightarrow> fail_ok (foldl (step pf) st s)"
  by (induction s arbitrary: st) (auto simp: fail_ok_step)

lemma finish_Exception: "fail_ok st \<Longrightarrow> finish pf st = Inl ex \<Longrightarrow> is_Exception ex"
  by (induction pf st rule: finish.induct) (auto split: option.splits if_splits)

lemma loads_Exception: "loads pf s = Inl ex \<Longrightarrow> is_Exception ex"
proof -
  assume a: "loads pf s = Inl ex"
  have "fail_ok (foldl (step pf) (MValue, []) s)" by (rule fail_ok_foldl) simp
  with a show ?thesis
    by (auto simp: loads_def split: if_splits dest: finish_Exception)
qed

lemma json_loads_Exception: "json_loads e b = Inl ex \<Longrightarrow> is_Exception ex"
  by (cases b) (auto simp: json_loads_def dest: loads_Exception)

lemma validate_payload_Exception: "validate_payload data = Inl ex \<Longrightarrow> is_Exception ex"
  by (auto simp: validate_payload_def Let_def split: if_splits)

lemma py_int_Exception: "py_int s = Inl ex \<Longrightarrow> is_Exception ex"
  by (auto simp: py_int_def Let_def invalid_literal_def split: if_splits option.splits)

lemma parse_delay_Exception: "parse_delay v = Inl ex \<Longrightarrow> is_Exception ex"
  by (cases v)
     (auto simp: parse_delay_def Let_def no_attribute_def
       split: if_splits option.splits sum.splits dest: py_int_Exception)

lemma alert_priority_Exception: "alert_priority r = Inl ex \<Longrightarrow> is_Exception ex"
  by (cases r) (auto simp: alert_priority_def)

lemma transform_Exception: "transform data = Inl ex \<Longrightarrow> is_Exception ex"
  by (cases data)
     (auto simp: transform_def Let_def no_attribute_def split: sum.splits
       dest: alert_priority_Exception parse_delay_Exception)

lemma make_item_Exception: "make_item e d = Inl ex \<Longrightarrow> is_Exception ex"
  by (auto simp: make_item_def split: option.splits)

lemma handler_try_cases:
  "(fst (handler_try e w ev) = Inr ()
      \<and> handler e w ev = (Inr success_response, snd (handler_try e w ev)))
   \<or> (\<exists>ex. fst (handler_try e w ev) = Inl ex \<and> is_Exception ex
        \<and> handler e w ev = (Inr (error_response ex), snd (handler_try e w ev)))
   \<or> (\<exists>ex. fst (handler_try e w ev) = Inl ex \<and> \<not> is_Exception ex
        \<and> handler e w ev = (Inl ex, snd (handler_try e w ev)))"
  by (cases "handler_try e w ev"; cases "fst (handler_try e w ev)")
     (auto simp: handler_def success_response_def error_response_def)

text \<open>Where the body of the \<open>try\<close> ends, step by step.\<close>

lemma handler_try_no_body:
  "dict_get ev (str ''body'') = None \<Longrightarrow> handler_try e w ev = (Inl (KeyError (str ''body'')), w)"
  by (simp add: handler_try_def)

lemma handler_try_parse:
  "dict_get ev (str ''body'') = Some b \<Longrightarrow> json_loads e b = Inl ex \<Longrightarrow>
   handler_try e w ev = (Inl ex, w)"
  by (simp add: handler_try_def)

lemma handler_try_validate:
  "dict_get ev (str ''body'') = Some b \<Longrightarrow> json_loads e b = Inr data \<Longrightarrow>
   validate_payload data = Inl ex \<Longrightarrow> handler_try e w ev = (Inl ex, w)"
  by (simp add: handler_try_def)

lemma handler_try_archive:
  "dict_get ev (str ''body'') = Some b \<Longrightarrow> json_loads e b = Inr data \<Longrightarrow>
   validate_payload data = Inr () \<Longrightarrow> archive_outcome e data = Some ex \<Longrightarrow>
   fst (handler_try e w ev) = Inl ex"
  by (simp add: handler_try_def archive_outcome_def Let_def)

lemma handler_try_transform:
  "dict_get ev (str ''body'') = Some b \<Longrightarrow> json_loads e b = Inr data \<Longrightarrow>
   validate_payload data = Inr () \<Longrightarrow> archive_outcome e data = None \<Longrightarrow>
   transform data = Inl ex \<Longrightarrow> fst (handler_try e w ev) = Inl ex"
  by (simp add: handler_try_def archive_outcome_def Let_def)

lemma handler_try_make_item:
  "dict_get ev (str ''body'') = Some b \<Longrightarrow> json_loads e b = Inr data \<Longrightarrow>
   validate_payload data = Inr () \<Longrightarrow> archive_outcome e data = None \<Longrightarrow>
   transform data = Inr d2 \<Longrightarrow> make_item e d2 = Inl ex \<Longrightarrow> fst (handler_try e w ev) = Inl ex"
  by (simp add: handler_try_def archive_outcome_def Let_def)

lemma handler_try_persist_raises:
  "dict_get ev (str ''body'') = Some b \<Longrightarrow> json_loads e b = Inr data \<Longrightarrow>
   validate_payload data = Inr () \<Longrightarrow> archive_outcome e data = None \<Longrightarrow>
   transform data = Inr d2 \<Longrightarrow> make_item e d2 = Inr item \<Longrightarrow>
   persist_outcome e item = Some ex \<Longrightarrow> fst (handler_try e w ev) = Inl ex"
  by (simp add: handler_try_def archive_outcome_def persist_outcome_def Let_def)

lemma handler_try_done:
  "dict_get ev (str ''body'') = Some b \<Longrightarrow> json_loads e b = Inr data \<Longrightarrow>
   validate_payload data = Inr () \<Longrightarrow> archive_outcome e data = None \<Longrightarrow>
   transform data = Inr d2 \<Longrightarrow> make_item e d2 = Inr item \<Longrightarrow>
   persist_outcome e item = None \<Longrightarrow> fst (handler_try e w ev) = Inr ()"
  by (simp add: handler_try_def archive_outcome_def persist_outcome_def Let_def)

lemma handler_try_raised:
  assumes "fst (handler_try e w ev) = Inl ex"
  shows "is_Exception ex \<or> (\<exists>data. archive_outcome e data = Some ex)
         \<or> (\<exists>item. persist_outcome e item = Some ex)"
proof (cases "dict_get ev (str ''body'')")
  case None
  with assms show ?thesis by (auto simp: handler_try_no_body)
next
  case (Some b)
  note b = this
  show ?thesis
  proof (cases "json_loads e b")
    case (Inl x)
    with assms b show ?thesis
      by (auto simp: handler_try_parse dest: json_loads_Exception)
  next
    case (Inr data)
    note l = this
    show ?thesis
    proof (cases "validate_payload data")
      case (Inl x)
      with assms b l show ?thesis
        by (auto simp: handler_try_validate dest: validate_payload_Exception)
    next
      case (Inr u)
      then have v: "validate_payload data = Inr ()" by simp
      show ?thesis
      proof (cases "archive_outcome e data")
        case (Some x)
        from handler_try_archive [OF b l v Some] assms Some show ?thesis by auto
      next
        case None
        note a = this
        show ?thesis
        proof (cases "transform data")
          case (Inl x)
          from handler_try_transform [OF b l v a Inl] assms transform_Exception [OF Inl]
          show ?thesis by auto
        next
          case (Inr d2)
          note t = this
          show ?thesis
          proof (cases "make_item e d2")
            case (Inl x)
            from handler_try_make_item [OF b l v a t Inl] assms make_item_Exception [OF Inl]
            show ?thesis by auto
          next
            case (Inr item)
            note m = this
            show ?thesis
            proof (cases "persist_outcome e item")
              case None
              from handler_try_done [OF b l v a t m None] assms show ?thesis by simp
            next
              case (Some x)
              from handler_try_persist_raises [OF b l v a t m Some] assms Some
              show ?thesis by auto
            qed
          qed
        qed
      qed
    qed
  qed
qed

lemma handler_try_success:
  assumes "fst (handler_try e w ev) = Inr ()"
  shows "\<exists>s data d2 item. dict_get ev (str ''body'') = Some (JStr s) \<and> loads (py_float e) s = Inr data
     \<and> validate_payload data = Inr () \<and> transform data = Inr d2 \<and> make_item e d2 = Inr item
     \<and> s3_put_object e (RAW_BUCKET e) (utcnow_archive e @ str ''.json'') (dumps data) (str ''application/json'') = None
     \<and> table_put_item e (TABLE_NAME e) item = None
     \<and> snd (handler_try e w ev) = w\<lparr>s3_calls := s3_calls w @ [\<lparr>Bucket = RAW_BUCKET e, Key = utcnow_archive e @ str ''.json'', Body = dumps data, ContentType = str ''application/json''\<rparr>],
            table_calls := table_calls w @ [(TABLE_NAME e, item)]\<rparr>"
  using assms
  by (auto simp: handler_try_def json_loads_def Let_def split: option.splits sum.splits json.splits)

lemma handler_try_persist:
  assumes "table_calls (snd (handler_try e w ev)) \<noteq> table_calls w"
  shows "\<exists>s data d2 item. dict_get ev (str ''body'') = Some (JStr s) \<and> loads (py_float e) s = Inr data
     \<and> validate_payload data = Inr () \<and> transform data = Inr d2 \<and> make_item e d2 = Inr item
     \<and> table_calls (snd (handler_try e w ev)) = table_calls w @ [(TABLE_NAME e, item)]"
  using assms
  by (auto simp: handler_try_def json_loads_def Let_def split: option.splits sum.splits json.splits)

section \<open>The enriched item\<close>

lemma alert_priority_range:
  "alert_priority r = Inr p \<Longrightarrow> p = JStr (str ''high'') \<or> p = JStr (str ''medium'') \<or> p = JStr (str ''low'')"
  by (cases r) (auto simp: alert_priority_def dict_get_def ALERT_PRIORITY_MAP_def split: if_splits)

lemma transform_result:
  assumes "transform data = Inr d2"
  shows "\<exists>d p n. data = JObj d
     \<and> alert_priority (dict_get_default d (str ''Reason'') (JStr (str ''Other''))) = Inr p
     \<and> parse_delay (dict_get_default d (str ''How Long Delayed'') (JStr [])) = Inr n
     \<and> d2 = dict_set (dict_set d (str ''alert_priority'') p) (str ''average_delay_minutes'') (JInt n)"
proof -
  have ne: "str ''How Long Delayed'' \<noteq> str ''alert_priority''" by (simp add: str_def)
  show ?thesis
    using assms ne
    by (cases data) (auto simp: transform_def Let_def dict_get_default_def dict_get_dict_set split: sum.splits)
qed

lemma make_item_result:
  "make_item e d = Inr item \<Longrightarrow>
   \<exists>rn. dict_get d (str ''Route Number'') = Some rn \<and>
     item = dict_update [(str ''RouteNumber'', rn),
                  (str ''OccurredOn'', dict_get_default d (str ''Occurred On'') (JStr (utcnow_persist e)))] d"
  by (auto simp: make_item_def split: option.splits)

lemma enriched_item_fields:
  assumes d: "distinct (map fst d)"
    and t: "transform (JObj d) = Inr d2"
    and m: "make_item e d2 = Inr item"
  shows "\<exists>p n. alert_priority (dict_get_default d (str ''Reason'') (JStr (str ''Other''))) = Inr p
     \<and> parse_delay (dict_get_default d (str ''How Long Delayed'') (JStr [])) = Inr n
     \<and> dict_get item (str ''alert_priority'') = Some p
     \<and> dict_get item (str ''average_delay_minutes'') = Some (JInt n)
     \<and> (\<forall>k. k \<noteq> str ''alert_priority'' \<longrightarrow> k \<noteq> str ''average_delay_minutes'' \<longrightarrow> k \<in> set (map fst d)
           \<longrightarrow> dict_get item k = dict_get d k)
     \<and> set (map fst item) = set (map fst d) \<union> {str ''alert_priority'', str ''average_delay_minutes'', str ''RouteNumber'', str ''OccurredOn''}"
proof -
  from transform_result [OF t] obtain p n where
    p: "alert_priority (dict_get_default d (str ''Reason'') (JStr (str ''Other''))) = Inr p"
    and n: "parse_delay (dict_get_default d (str ''How Long Delayed'') (JStr [])) = Inr n"
    and d2: "d2 = dict_set (dict_set d (str ''alert_priority'') p) (str ''average_delay_minutes'') (JInt n)"
    by auto
  have dd2: "distinct (map fst d2)"
    unfolding d2 using d by (intro distinct_dict_set)
  from make_item_result [OF m] obtain rn where
    item: "item = dict_update [(str ''RouteNumber'', rn),
                  (str ''OccurredOn'', dict_get_default d2 (str ''Occurred On'') (JStr (utcnow_persist e)))] d2"
    by auto
  have get: "dict_get item k = (case dict_get d2 k of Some v \<Rightarrow> Some v
               | None \<Rightarrow> dict_get [(str ''RouteNumber'', rn),
                  (str ''OccurredOn'', dict_get_default d2 (str ''Occurred On'') (JStr (utcnow_persist e)))] k)" for k
    unfolding item by (rule dict_get_dict_update [OF dd2])
  have ne: "str ''alert_priority'' \<noteq> str ''average_delay_minutes''" by (simp add: str_def)
  have a: "dict_get item (str ''alert_priority'') = Some p"
    using ne by (simp add: get d2 dict_get_dict_set)
  have b: "dict_get item (str ''average_delay_minutes'') = Some (JInt n)"
    by (simp add: get d2 dict_get_dict_set)
  have c: "dict_get item k = dict_get d k"
    if "k \<noteq> str ''alert_priority''" "k \<noteq> str ''average_delay_minutes''" "k \<in> set (map fst d)" for k
  proof -
    from that(3) have "map_of d k \<noteq> None"
      by (simp add: map_of_eq_None_iff)
    then obtain v where "dict_get d k = Some v"
      by (auto simp: dict_get_def)
    with that(1,2) show ?thesis by (simp add: get d2 dict_get_dict_set)
  qed
  have k: "set (map fst item) = set (map fst d) \<union> {str ''alert_priority'', str ''average_delay_minutes'', str ''RouteNumber'', str ''OccurredOn''}"
    unfolding item d2 keys_dict_update key_set_dict_set by auto
  from p n a b c k show ?thesis by blast
qed

section \<open>Reading the sample texts\<close>

lemmas reader_defs = loads_def start_value_def is_ws_def close_string_def flush_def num_char_def
  end_number_def isdigit_def decode_error_def unescape_def

lemma loads_flat_tire: "loads pf flat_tire_text = Inr (JObj flat_tire_dict)"
  by (simp add: flat_tire_text_def flat_tire_dict_def str_def reader_defs)

lemma loads_compact: "loads pf compact_text = Inr (JObj compact_dict)"
  by (simp add: compact_text_def compact_dict_def str_def reader_defs)

lemma loads_priority_given: "loads pf priority_given_text = Inr (JObj priority_given_dict)"
  by (simp add: priority_given_text_def priority_given_dict_def str_def reader_defs)

lemma loads_no_reason: "loads pf no_reason_text = Inr (JObj no_reason_dict)"
  by (simp add: no_reason_text_def no_reason_dict_def str_def reader_defs)


section \<open>Running the handler on the samples\<close>

lemma handler_success:
  assumes "dict_get ev (str ''body'') = Some (JStr s)"
    and "loads (py_float e) s = Inr data"
    and "validate_payload data = Inr ()"
    and "s3_put_object e (RAW_BUCKET e) (utcnow_archive e @ str ''.json'') (dumps data) (str ''application/json'') = None"
    and "transform data = Inr d2"
    and "make_item e d2 = Inr item"
    and "table_put_item e (TABLE_NAME e) item = None"
  shows "handler e w ev =
     (Inr success_response,
      w\<lparr>s3_calls := s3_calls w @ [\<lparr>Bucket = RAW_BUCKET e, Key = utcnow_archive e @ str ''.json'', Body = dumps data, ContentType = str ''application/json''\<rparr>],
            table_calls := table_calls w @ [(TABLE_NAME e, item)]\<rparr>)"
  using assms by (simp add: handler_def handler_try_def json_loads_def Let_def success_response_def)

lemma status_success [simp]: "status_of (Inr success_response) = Some 200"
  by (simp add: status_of_def success_response_def)

lemma status_error [simp]: "status_of (Inr (error_response ex)) = Some 400"
  by (simp add: status_of_def error_response_def)

lemma status_raise [simp]: "status_of (Inl ex) = None"
  by (simp add: status_of_def)

lemma event_of_body: "dict_get (event_of s) (str ''body'') = Some (JStr s)"
  by (simp add: event_of_def dict_get_def)

lemma quiet_env_calls:
  "s3_put_object quiet_env b k c t = None" "table_put_item quiet_env n i = None"
  by (simp_all add: quiet_env_def)

lemma quiet_env_outcomes:
  "archive_outcome quiet_env data = None" "persist_outcome quiet_env item = None"
  by (simp_all add: archive_outcome_def persist_outcome_def quiet_env_def)

lemma throttled_env_outcomes:
  "archive_outcome throttled_env data = None"
  "persist_outcome throttled_env item = Some (StorageError (str ''ThrottlingException''))"
  by (simp_all add: archive_outcome_def persist_outcome_def throttled_env_def quiet_env_def)

lemma interrupted_env_outcome:
  "archive_outcome interrupted_env data = Some (BaseException (str ''KeyboardInterrupt''))"
  by (simp add: archive_outcome_def interrupted_env_def quiet_env_def)

lemma json_loads_text: "json_loads e (JStr s) = loads (py_float e) s"
  by (simp add: json_loads_def)

lemma parse_delay_empty: "parse_delay (JStr []) = Inr 0"
  by (simp add: parse_delay_def)

lemma parse_delay_10_20: "parse_delay (JStr (str ''10-20 min'')) = Inr 0"
  by (simp add: parse_delay_def str_def strip_def lower_def lower_cp_def isspace_def
        re_match_range_def re_match_single_def re_group_def)

lemmas step_defs = dict_get_def validate_payload_def required_fields_def transform_def
  make_item_def dict_get_default_def dict_update_def alert_priority_def ALERT_PRIORITY_MAP_def
  Let_def str_def

lemma flat_tire_steps:
  "validate_payload (JObj flat_tire_dict) = Inr ()"
  "transform (JObj flat_tire_dict) =
     Inr (flat_tire_dict @ [(str ''alert_priority'', JStr (str ''high'')),
                            (str ''average_delay_minutes'', JInt 0)])"
  using parse_delay_10_20 by (simp_all add: flat_tire_dict_def step_defs)

lemma flat_tire_item:
  "make_item e (flat_tire_dict @ [(str ''alert_priority'', JStr (str ''high'')),
                            (str ''average_delay_minutes'', JInt 0)])
   = Inr ([(str ''RouteNumber'', JStr (str ''12'')),
           (str ''OccurredOn'', JStr (utcnow_persist e))] @ flat_tire_dict
          @ [(str ''alert_priority'', JStr (str ''high'')), (str ''average_delay_minutes'', JInt 0)])"
  by (simp add: flat_tire_dict_def step_defs)

text \<open>
  C2. On the body with reason "Flat Tire" and delay "10-20 min" the handler should persist
  \<open>alert_priority\<close> "high" and \<open>average_delay_minutes\<close> 15 and answer 200. It answers 200 and
  persists "high", but the delay it persists is 0: the range pattern never matches digits.
\<close>

theorem handler_flat_tire_delay_is_zero:
  "status_of (fst (handler quiet_env no_calls (event_of flat_tire_text))) = Some 200
   \<and> map (\<lambda>(t, item). (dict_get item (str ''alert_priority''),
                        dict_get item (str ''average_delay_minutes'')))
        (table_calls (snd (handler quiet_env no_calls (event_of flat_tire_text))))
     = [(Some (JStr (str ''high'')), Some (JInt 0))]"
  unfolding handler_success [OF event_of_body loads_flat_tire flat_tire_steps(1) quiet_env_calls(1)
      flat_tire_steps(2) flat_tire_item quiet_env_calls(2)]
  by (simp add: no_calls_def dict_get_def flat_tire_dict_def str_def)

section \<open>Properties of the handler\<close>

lemma handler_world: "snd (handler e w ev) = snd (handler_try e w ev)"
  by (cases "handler_try e w ev"; cases "fst (handler_try e w ev)") (auto simp: handler_def)

lemma handler_200: "status_of (fst (handler e w ev)) = Some 200 \<Longrightarrow> fst (handler_try e w ev) = Inr ()"
  using handler_try_cases [of e w ev] by auto

lemma handler_failure:
  "fst (handler_try e w ev) = Inl ex \<Longrightarrow>
   fst (handler e w ev) = (if is_Exception ex then Inr (error_response ex) else Inl ex)"
  using handler_try_cases [of e w ev] by auto

lemma handler_done: "fst (handler_try e w ev) = Inr () \<Longrightarrow> fst (handler e w ev) = Inr success_response"
  using handler_try_cases [of e w ev] by auto

lemma handler_at_no_body:
  "dict_get ev (str ''body'') = None \<Longrightarrow>
   fst (handler e w ev) = Inr (error_response (KeyError (str ''body'')))"
  by (simp add: handler_failure handler_try_no_body)

lemma handler_at_parse:
  "dict_get ev (str ''body'') = Some b \<Longrightarrow> json_loads e b = Inl ex \<Longrightarrow>
   fst (handler e w ev) = Inr (error_response ex)"
  by (simp add: handler_failure handler_try_parse json_loads_Exception)

lemma handler_at_validate:
  "dict_get ev (str ''body'') = Some b \<Longrightarrow> json_loads e b = Inr data \<Longrightarrow>
   validate_payload data = Inl ex \<Longrightarrow> fst (handler e w ev) = Inr (error_response ex)"
  by (simp add: handler_failure handler_try_validate validate_payload_Exception)

lemma handler_at_archive:
  "dict_get ev (str ''body'') = Some b \<Longrightarrow> json_loads e b = Inr data \<Longrightarrow>
   validate_payload data = Inr () \<Longrightarrow> archive_outcome e data = Some ex \<Longrightarrow>
   fst (handler e w ev) = (if is_Exception ex then Inr (error_response ex) else Inl ex)"
  by (rule handler_failure) (rule handler_try_archive)

lemma handler_at_transform:
  "dict_get ev (str ''body'') = Some b \<Longrightarrow> json_loads e b = Inr data \<Longrightarrow>
   validate_payload data = Inr () \<Longrightarrow> archive_outcome e data = None \<Longrightarrow>
   transform data = Inl ex \<Longrightarrow> fst (handler e w ev) = Inr (error_response ex)"
  using handler_failure [OF handler_try_transform] transform_Exception by simp

lemma handler_at_make_item:
  "dict_get ev (str ''body'') = Some b \<Longrightarrow> json_loads e b = Inr data \<Longrightarrow>
   validate_payload data = Inr () \<Longrightarrow> archive_outcome e data = None \<Longrightarrow>
   transform data = Inr d2 \<Longrightarrow> make_item e d2 = Inl ex \<Longrightarrow>
   fst (handler e w ev) = Inr (error_response ex)"
  using handler_failure [OF handler_try_make_item] make_item_Exception by simp

lemma handler_at_persist:
  "dict_get ev (str ''body'') = Some b \<Longrightarrow> json_loads e b = Inr data \<Longrightarrow>
   validate_payload data = Inr () \<Longrightarrow> archive_outcome e data = None \<Longrightarrow>
   transform data = Inr d2 \<Longrightarrow> make_item e d2 = Inr item \<Longrightarrow>
   persist_outcome e item = Some ex \<Longrightarrow>
   fst (handler e w ev) = (if is_Exception ex then Inr (error_response ex) else Inl ex)"
  by (rule handler_failure) (rule handler_try_persist_raises)

lemma handler_at_done:
  "dict_get ev (str ''body'') = Some b \<Longrightarrow> json_loads e b = Inr data \<Longrightarrow>
   validate_payload data = Inr () \<Longrightarrow> archive_outcome e data = None \<Longrightarrow>
   transform data = Inr d2 \<Longrightarrow> make_item e d2 = Inr item \<Longrightarrow>
   persist_outcome e item = None \<Longrightarrow> fst (handler e w ev) = Inr success_response"
  by (rule handler_done) (rule handler_try_done)

lemma handler_raises_only:
  assumes "fst (handler e w ev) = Inl ex"
  shows "\<not> is_Exception ex
     \<and> ((\<exists>data. archive_outcome e data = Some ex) \<or> (\<exists>item. persist_outcome e item = Some ex))"
proof -
  from assms handler_try_cases [of e w ev]
  have "fst (handler_try e w ev) = Inl ex" and "\<not> is_Exception ex" by auto
  with handler_try_raised [of e w ev ex] show ?thesis by blast
qed

lemma handler_returns_shape:
  "fst (handler e w ev) = Inr r \<Longrightarrow> r = success_response \<or> (\<exists>ex. r = error_response ex)"
  using handler_try_cases [of e w ev] by auto

lemma handler_status: "status_of (fst (handler e w ev)) \<in> {Some 200, Some 400, None}"
  using handler_try_cases [of e w ev] by auto

text \<open>
  C7, as amended. The handler raises only when a call to a collaborator raises an exception
  whose class is not under \<open>Exception\<close>, and then that exception leaves the handler. In every
  other case it returns. When a step raises (the body is absent or does not parse,
  validation fails, the archive call raises, the transform raises, the persist call
  raises) the response is 400 with the text of that exception, of the same shape for a
  validation failure and a storage failure. When no step raises the response is 200 with
  the success message. No other status code is returned.
\<close>

theorem handler_answer_by_step:
  "(dict_get ev (str ''body'') = None
      \<longrightarrow> fst (handler e w ev) = Inr (error_response (KeyError (str ''body''))))
   \<and> (dict_get ev (str ''body'') = Some b \<longrightarrow>
        (json_loads e b = Inl ex \<longrightarrow> fst (handler e w ev) = Inr (error_response ex))
      \<and> (json_loads e b = Inr data \<longrightarrow>
          (validate_payload data = Inl ex \<longrightarrow> fst (handler e w ev) = Inr (error_response ex))
        \<and> (validate_payload data = Inr () \<longrightarrow>
            (archive_outcome e data = Some ex \<longrightarrow>
               fst (handler e w ev) = (if is_Exception ex then Inr (error_response ex) else Inl ex))
          \<and> (archive_outcome e data = None \<longrightarrow>
              (transform data = Inl ex \<longrightarrow> fst (handler e w ev) = Inr (error_response ex))
            \<and> (transform data = Inr d2 \<longrightarrow>
                (make_item e d2 = Inl ex \<longrightarrow> fst (handler e w ev) = Inr (error_response ex))
              \<and> (make_item e d2 = Inr item \<longrightarrow>
                  (persist_outcome e item = Some ex \<longrightarrow>
                     fst (handler e w ev)
                       = (if is_Exception ex then Inr (error_response ex) else Inl ex))
                \<and> (persist_outcome e item = None
                     \<longrightarrow> fst (handler e w ev) = Inr success_response)))))))
   \<and> (fst (handler e w ev) = Inl ex \<longrightarrow>
        \<not> is_Exception ex
        \<and> ((\<exists>data. archive_outcome e data = Some ex) \<or> (\<exists>item. persist_outcome e item = Some ex)))
   \<and> (fst (handler e w ev) = Inr r \<longrightarrow> r = success_response \<or> (\<exists>ex. r = error_response ex))
   \<and> status_of (fst (handler e w ev)) \<in> {Some 200, Some 400, None}"
proof (intro conjI impI)
  show "status_of (fst (handler e w ev)) \<in> {Some 200, Some 400, None}"
    by (rule handler_status)
qed (blast intro: handler_at_no_body handler_at_parse handler_at_validate handler_at_archive
       handler_at_transform handler_at_make_item handler_at_persist handler_at_done
       dest: handler_raises_only handler_returns_shape)+

text \<open>
  C3, as amended. On every successful invocation the body is a text that the reader
  accepts, and the one call made to blob storage carries \<open>json.dumps\<close> of the value read,
  serialised before any computed field is added.
\<close>

theorem archive_is_dumps_of_parsed_body:
  "status_of (fst (handler e w ev)) = Some 200 \<Longrightarrow>
   \<exists>s data. dict_get ev (str ''body'') = Some (JStr s) \<and> loads (py_float e) s = Inr data
     \<and> s3_calls (snd (handler e w ev))
         = s3_calls w @ [\<lparr>Bucket = RAW_BUCKET e, Key = utcnow_archive e @ str ''.json'',
                          Body = dumps data, ContentType = str ''application/json''\<rparr>]"
proof -
  assume "status_of (fst (handler e w ev)) = Some 200"
  then have "fst (handler_try e w ev) = Inr ()" by (rule handler_200)
  from handler_try_success [OF this] show ?thesis
    unfolding handler_world by auto
qed

text \<open>
  C8. Whenever the handler reaches the persist step, the item it hands to the store has
  \<open>alert_priority\<close> equal to "high", "medium" or "low" (so not empty) and
  \<open>average_delay_minutes\<close> equal to an integer that is not negative.
\<close>

theorem persisted_item_fields:
  "table_calls (snd (handler e w ev)) \<noteq> table_calls w \<Longrightarrow>
   \<exists>item p n. table_calls (snd (handler e w ev)) = table_calls w @ [(TABLE_NAME e, item)]
     \<and> dict_get item (str ''alert_priority'') = Some (JStr p)
     \<and> p \<in> {str ''high'', str ''medium'', str ''low''} \<and> p \<noteq> []
     \<and> dict_get item (str ''average_delay_minutes'') = Some (JInt n) \<and> 0 \<le> n"
proof -
  assume "table_calls (snd (handler e w ev)) \<noteq> table_calls w"
  then have "table_calls (snd (handler_try e w ev)) \<noteq> table_calls w"
    by (simp add: handler_world)
  from handler_try_persist [OF this] obtain s data d2 item where
    l: "loads (py_float e) s = Inr data" and t: "transform data = Inr d2"
    and m: "make_item e d2 = Inr item"
    and c: "table_calls (snd (handler_try e w ev)) = table_calls w @ [(TABLE_NAME e, item)]"
    by blast
  from transform_result [OF t] obtain d where d: "data = JObj d" by blast
  from l d have dist: "distinct (map fst d)" by (auto dest: loads_distinct)
  from enriched_item_fields [OF dist t [unfolded d] m] obtain p n where
    p: "alert_priority (dict_get_default d (str ''Reason'') (JStr (str ''Other''))) = Inr p"
    and n: "parse_delay (dict_get_default d (str ''How Long Delayed'') (JStr [])) = Inr n"
    and a: "dict_get item (str ''alert_priority'') = Some p"
    and b: "dict_get item (str ''average_delay_minutes'') = Some (JInt n)"
    by blast
  from alert_priority_range [OF p] obtain q where q: "p = JStr q" "q \<in> {str ''high'', str ''medium'', str ''low''}"
    by auto
  from q(2) have "q \<noteq> []" by (auto simp: str_def)
  moreover from parse_delay_value [OF n] have "0 \<le> n" by auto
  ultimately show ?thesis
    using c a b q unfolding handler_world by blast
qed

text \<open>
  C9, as amended. On every successful invocation each pair of the parsed body whose key is
  neither \<open>alert_priority\<close> nor \<open>average_delay_minutes\<close> is in the persisted item unchanged,
  the keys of the item are those of the body together with \<open>alert_priority\<close>,
  \<open>average_delay_minutes\<close>, \<open>RouteNumber\<close> and \<open>OccurredOn\<close>, and the item binds
  \<open>alert_priority\<close> and \<open>average_delay_minutes\<close> to the computed values, whatever the body
  had under those two names.
\<close>

theorem input_fields_pass_through:
  "status_of (fst (handler e w ev)) = Some 200 \<Longrightarrow>
   \<exists>s d item. dict_get ev (str ''body'') = Some (JStr s) \<and> loads (py_float e) s = Inr (JObj d)
     \<and> table_calls (snd (handler e w ev)) = table_calls w @ [(TABLE_NAME e, item)]
     \<and> (\<forall>k v. k \<noteq> str ''alert_priority'' \<longrightarrow> k \<noteq> str ''average_delay_minutes''
            \<longrightarrow> dict_get d k = Some v \<longrightarrow> dict_get item k = Some v)
     \<and> set (map fst item)
         = set (map fst d) \<union> {str ''alert_priority'', str ''average_delay_minutes'',
                                str ''RouteNumber'', str ''OccurredOn''}
     \<and> (\<exists>p n. alert_priority (dict_get_default d (str ''Reason'') (JStr (str ''Other''))) = Inr p
            \<and> parse_delay (dict_get_default d (str ''How Long Delayed'') (JStr [])) = Inr n
            \<and> dict_get item (str ''alert_priority'') = Some p
            \<and> dict_get item (str ''average_delay_minutes'') = Some (JInt n))"
proof -
  assume "status_of (fst (handler e w ev)) = Some 200"
  then have "fst (handler_try e w ev) = Inr ()" by (rule handler_200)
  from handler_try_success [OF this] obtain s data d2 item where
    b: "dict_get ev (str ''body'') = Some (JStr s)"
    and l: "loads (py_float e) s = Inr data" and t: "transform data = Inr d2"
    and m: "make_item e d2 = Inr item"
    and c: "snd (handler_try e w ev) = w\<lparr>s3_calls := s3_calls w @ [\<lparr>Bucket = RAW_BUCKET e, Key = utcnow_archive e @ str ''.json'', Body = dumps data, ContentType = str ''application/json''\<rparr>],
            table_calls := table_calls w @ [(TABLE_NAME e, item)]\<rparr>"
    by blast
  from transform_result [OF t] obtain d where d: "data = JObj d" by blast
  from l d have dist: "distinct (map fst d)" by (auto dest: loads_distinct)
  from enriched_item_fields [OF dist t [unfolded d] m] have
    keep: "\<forall>k. k \<noteq> str ''alert_priority'' \<longrightarrow> k \<noteq> str ''average_delay_minutes'' \<longrightarrow> k \<in> set (map fst d)
           \<longrightarrow> dict_get item k = dict_get d k"
    and keys: "set (map fst item) = set (map fst d) \<union> {str ''alert_priority'', str ''average_delay_minutes'', str ''RouteNumber'', str ''OccurredOn''}"
    and computed: "\<exists>p n. alert_priority (dict_get_default d (str ''Reason'') (JStr (str ''Other''))) = Inr p
            \<and> parse_delay (dict_get_default d (str ''How Long Delayed'') (JStr [])) = Inr n
            \<and> dict_get item (str ''alert_priority'') = Some p
            \<and> dict_get item (str ''average_delay_minutes'') = Some (JInt n)"
    by blast+
  have "dict_get item k = Some v"
    if "k \<noteq> str ''alert_priority''" "k \<noteq> str ''average_delay_minutes''" "dict_get d k = Some v" for k v
  proof -
    from that(3) have "k \<in> set (map fst d)"
      by (auto simp: dict_get_def dest: map_of_SomeD intro: rev_image_eqI)
    with keep that show ?thesis by simp
  qed
  with b l d c keys computed show ?thesis
    unfolding handler_world by auto
qed



section \<open>The handler on the samples\<close>

lemmas dumps_defs = dumps_str_def escape_cp_def dec.simps

lemma compact_steps:
  "validate_payload (JObj compact_dict) = Inr ()"
  "transform (JObj compact_dict) =
     Inr (compact_dict @ [(str ''alert_priority'', JStr (str ''low'')),
                          (str ''average_delay_minutes'', JInt 0)])"
  using parse_delay_empty by (simp_all add: compact_dict_def step_defs)

lemma compact_item:
  "make_item quiet_env (compact_dict @ [(str ''alert_priority'', JStr (str ''low'')),
                            (str ''average_delay_minutes'', JInt 0)])
   = Inr ([(str ''RouteNumber'', JStr (str ''12'')),
           (str ''OccurredOn'', JStr (utcnow_persist quiet_env))] @ compact_dict
          @ [(str ''alert_priority'', JStr (str ''low'')), (str ''average_delay_minutes'', JInt 0)])"
  by (simp add: compact_dict_def step_defs)

lemma dumps_compact: "dumps (JObj compact_dict) = spaced_text"
  by (simp add: compact_dict_def spaced_text_def str_def dumps_defs)

lemmas handler_compact = handler_success [OF event_of_body loads_compact compact_steps(1)
      quiet_env_calls(1) compact_steps(2) compact_item quiet_env_calls(2)]

text \<open>
  C3, as stated, fails: the body text written without spaces after the separators is
  accepted, the invocation succeeds, and the content handed to blob storage is the
  re-serialised text with those spaces, which differs from the body.
\<close>

theorem archive_not_byte_identical:
  "status_of (fst (handler quiet_env no_calls (event_of compact_text))) = Some 200
   \<and> map Body (s3_calls (snd (handler quiet_env no_calls (event_of compact_text)))) = [spaced_text]
   \<and> spaced_text \<noteq> compact_text"
  unfolding handler_compact dumps_compact
  by (simp add: no_calls_def) (simp add: spaced_text_def compact_text_def str_def)

text \<open>The amended C3 at the same invocation.\<close>

theorem archive_is_dumps_of_parsed_body_witness:
  "status_of (fst (handler quiet_env no_calls (event_of compact_text))) = Some 200
   \<and> (\<exists>s data. dict_get (event_of compact_text) (str ''body'') = Some (JStr s)
        \<and> loads (py_float quiet_env) s = Inr data
        \<and> s3_calls (snd (handler quiet_env no_calls (event_of compact_text)))
            = s3_calls no_calls @ [\<lparr>Bucket = RAW_BUCKET quiet_env,
                 Key = utcnow_archive quiet_env @ str ''.json'',
                 Body = dumps data, ContentType = str ''application/json''\<rparr>])"
proof -
  have a: "status_of (fst (handler quiet_env no_calls (event_of compact_text))) = Some 200"
    unfolding handler_compact by simp
  from archive_is_dumps_of_parsed_body [OF a] a show ?thesis by blast
qed

lemma priority_given_steps:
  "validate_payload (JObj priority_given_dict) = Inr ()"
  "transform (JObj priority_given_dict) =
     Inr ([(str ''Busbreakdown ID'', JInt 1), (str ''Route Number'', JStr (str ''12'')),
           (str ''Reason'', JStr (str ''Flat Tire'')), (str ''alert_priority'', JStr (str ''high'')),
           (str ''average_delay_minutes'', JInt 0)])"
  using parse_delay_empty by (simp_all add: priority_given_dict_def step_defs)

lemma priority_given_item:
  "make_item quiet_env [(str ''Busbreakdown ID'', JInt 1), (str ''Route Number'', JStr (str ''12'')),
           (str ''Reason'', JStr (str ''Flat Tire'')), (str ''alert_priority'', JStr (str ''high'')),
           (str ''average_delay_minutes'', JInt 0)]
   = Inr [(str ''RouteNumber'', JStr (str ''12'')),
           (str ''OccurredOn'', JStr (utcnow_persist quiet_env)),
           (str ''Busbreakdown ID'', JInt 1), (str ''Route Number'', JStr (str ''12'')),
           (str ''Reason'', JStr (str ''Flat Tire'')), (str ''alert_priority'', JStr (str ''high'')),
           (str ''average_delay_minutes'', JInt 0)]"
  by (simp add: step_defs)

lemmas handler_priority_given = handler_success [OF event_of_body loads_priority_given
      priority_given_steps(1) quiet_env_calls(1) priority_given_steps(2) priority_given_item
      quiet_env_calls(2)]

text \<open>
  C9, as stated, fails: a body that brings its own \<open>alert_priority\<close> "none" is processed
  successfully and the persisted item has \<open>alert_priority\<close> "high".
\<close>

theorem input_priority_overwritten:
  "status_of (fst (handler quiet_env no_calls (event_of priority_given_text))) = Some 200
   \<and> loads (py_float quiet_env) priority_given_text = Inr (JObj priority_given_dict)
   \<and> dict_get priority_given_dict (str ''alert_priority'') = Some (JStr (str ''none''))
   \<and> map (\<lambda>(t, item). dict_get item (str ''alert_priority''))
        (table_calls (snd (handler quiet_env no_calls (event_of priority_given_text))))
      = [Some (JStr (str ''high''))]"
  unfolding handler_priority_given
  by (simp add: loads_priority_given no_calls_def) (simp add: priority_given_dict_def dict_get_def str_def)

lemmas handler_flat_tire = handler_success [OF event_of_body loads_flat_tire flat_tire_steps(1)
      quiet_env_calls(1) flat_tire_steps(2) flat_tire_item quiet_env_calls(2)]

text \<open>C8 at the flat-tire invocation, which reaches the persist step.\<close>

theorem persisted_item_fields_witness:
  "table_calls (snd (handler quiet_env no_calls (event_of flat_tire_text))) \<noteq> table_calls no_calls
   \<and> (\<exists>item p n. table_calls (snd (handler quiet_env no_calls (event_of flat_tire_text)))
          = table_calls no_calls @ [(TABLE_NAME quiet_env, item)]
     \<and> dict_get item (str ''alert_priority'') = Some (JStr p)
     \<and> p \<in> {str ''high'', str ''medium'', str ''low''} \<and> p \<noteq> []
     \<and> dict_get item (str ''average_delay_minutes'') = Some (JInt n) \<and> 0 \<le> n)"
proof -
  have a: "table_calls (snd (handler quiet_env no_calls (event_of flat_tire_text))) \<noteq> table_calls no_calls"
    unfolding handler_flat_tire by (simp add: no_calls_def)
  from persisted_item_fields [OF a] a show ?thesis by blast
qed

text \<open>The amended C9 at the invocation whose body brings its own \<open>alert_priority\<close>.\<close>

theorem input_fields_pass_through_witness:
  "status_of (fst (handler quiet_env no_calls (event_of priority_given_text))) = Some 200
   \<and> (\<exists>s d item. dict_get (event_of priority_given_text) (str ''body'') = Some (JStr s)
     \<and> loads (py_float quiet_env) s = Inr (JObj d)
     \<and> table_calls (snd (handler quiet_env no_calls (event_of priority_given_text)))
         = table_calls no_calls @ [(TABLE_NAME quiet_env, item)]
     \<and> (\<forall>k v. k \<noteq> str ''alert_priority'' \<longrightarrow> k \<noteq> str ''average_delay_minutes''
            \<longrightarrow> dict_get d k = Some v \<longrightarrow> dict_get item k = Some v)
     \<and> set (map fst item)
         = set (map fst d) \<union> {str ''alert_priority'', str ''average_delay_minutes'',
                                str ''RouteNumber'', str ''OccurredOn''}
     \<and> (\<exists>p n. alert_priority (dict_get_default d (str ''Reason'') (JStr (str ''Other''))) = Inr p
            \<and> parse_delay (dict_get_default d (str ''How Long Delayed'') (JStr [])) = Inr n
            \<and> dict_get item (str ''alert_priority'') = Some p
            \<and> dict_get item (str ''average_delay_minutes'') = Some (JInt n)))"
proof -
  have a: "status_of (fst (handler quiet_env no_calls (event_of priority_given_text))) = Some 200"
    unfolding handler_priority_given by simp
  from input_fields_pass_through [OF a] a show ?thesis by blast
qed


text \<open>
  C7, as stated, fails: when the archive call is interrupted from the keyboard the handler
  returns neither 400 nor 200; the \<open>KeyboardInterrupt\<close> leaves it.
\<close>

theorem handler_raises_keyboard_interrupt:
  "fst (handler interrupted_env no_calls (event_of flat_tire_text))
     = Inl (BaseException (str ''KeyboardInterrupt''))
   \<and> status_of (fst (handler interrupted_env no_calls (event_of flat_tire_text))) = None"
proof -
  have jl: "json_loads interrupted_env (JStr flat_tire_text) = Inr (JObj flat_tire_dict)"
    by (simp add: json_loads_text loads_flat_tire)
  from handler_at_archive [OF event_of_body jl flat_tire_steps(1) interrupted_env_outcome]
  show ?thesis by simp
qed

text \<open>
  The amended C7 at four invocations: every step returns; validation fails; the store
  refuses; the archive call is interrupted.
\<close>

theorem handler_answer_by_step_witness:
  "fst (handler quiet_env no_calls (event_of flat_tire_text)) = Inr success_response
   \<and> fst (handler quiet_env no_calls (event_of no_reason_text))
       = Inr (error_response
                (ValueError (str ''Missing required fields: Busbreakdown ID, Reason'')))
   \<and> fst (handler throttled_env no_calls (event_of flat_tire_text))
       = Inr (error_response (StorageError (str ''ThrottlingException'')))
   \<and> fst (handler interrupted_env no_calls (event_of flat_tire_text))
       = Inl (BaseException (str ''KeyboardInterrupt''))"
proof -
  let ?d2 = "flat_tire_dict @ [(str ''alert_priority'', JStr (str ''high'')),
                               (str ''average_delay_minutes'', JInt 0)]"
  have jl: "json_loads e (JStr flat_tire_text) = Inr (JObj flat_tire_dict)" for e
    by (simp add: json_loads_text loads_flat_tire)
  have jn: "json_loads quiet_env (JStr no_reason_text) = Inr (JObj no_reason_dict)"
    by (simp add: json_loads_text loads_no_reason)
  have vn: "validate_payload (JObj no_reason_dict)
            = Inl (ValueError (str ''Missing required fields: Busbreakdown ID, Reason''))"
    by (simp add: validate_payload_def no_reason_dict_def required_fields_def str_def Let_def)
  have a: "fst (handler quiet_env no_calls (event_of flat_tire_text)) = Inr success_response"
    using handler_answer_by_step [where e = quiet_env and w = no_calls
        and ev = "event_of flat_tire_text" and b = "JStr flat_tire_text"
        and data = "JObj flat_tire_dict" and ?d2.0 = ?d2
        and item = "[(str ''RouteNumber'', JStr (str ''12'')),
           (str ''OccurredOn'', JStr (utcnow_persist quiet_env))] @ ?d2"]
      event_of_body [of flat_tire_text] jl [of quiet_env] flat_tire_steps
      flat_tire_item [of quiet_env] quiet_env_outcomes
    by simp
  have b: "fst (handler quiet_env no_calls (event_of no_reason_text))
       = Inr (error_response
                (ValueError (str ''Missing required fields: Busbreakdown ID, Reason'')))"
    using handler_answer_by_step [where e = quiet_env and w = no_calls
        and ev = "event_of no_reason_text" and b = "JStr no_reason_text"
        and data = "JObj no_reason_dict"
        and ex = "ValueError (str ''Missing required fields: Busbreakdown ID, Reason'')"]
      event_of_body [of no_reason_text] jn vn
    by simp
  have c: "fst (handler throttled_env no_calls (event_of flat_tire_text))
       = Inr (error_response (StorageError (str ''ThrottlingException'')))"
    using handler_answer_by_step [where e = throttled_env and w = no_calls
        and ev = "event_of flat_tire_text" and b = "JStr flat_tire_text"
        and data = "JObj flat_tire_dict" and ?d2.0 = ?d2
        and item = "[(str ''RouteNumber'', JStr (str ''12'')),
           (str ''OccurredOn'', JStr (utcnow_persist throttled_env))] @ ?d2"
        and ex = "StorageError (str ''ThrottlingException'')"]
      event_of_body [of flat_tire_text] jl [of throttled_env] flat_tire_steps
      flat_tire_item [of throttled_env] throttled_env_outcomes
    by simp
  have d: "fst (handler interrupted_env no_calls (event_of flat_tire_text))
       = Inl (BaseException (str ''KeyboardInterrupt''))"
    using handler_answer_by_step [where e = interrupted_env and w = no_calls
        and ev = "event_of flat_tire_text" and b = "JStr flat_tire_text"
        and data = "JObj flat_tire_dict"
        and ex = "BaseException (str ''KeyboardInterrupt'')"]
      event_of_body [of flat_tire_text] jl [of interrupted_env] flat_tire_steps(1)
      interrupted_env_outcome
    by simp
  from a b c d show ?thesis by blast
qed

section \<open>Validation failures\<close>

lemma validate_payload_dict:
  "validate_payload (JObj d) =
     (if filter (\<lambda>f. f \<notin> set (map fst d)) required_fields \<noteq> []
      then Inl (ValueError (str ''Missing required fields: ''
                  @ join (str '', '') (filter (\<lambda>f. f \<notin> set (map fst d)) required_fields)))
      else Inr ())"
  by (simp add: validate_payload_def Let_def)

lemma handler_invalid:
  assumes "dict_get ev (str ''body'') = Some (JStr s)"
    and "loads (py_float e) s = Inr data"
    and "validate_payload data = Inl ex"
  shows "handler e w ev = (Inr (error_response ex), w)"
  using assms validate_payload_Exception [of data ex]
  by (simp add: handler_def handler_try_def json_loads_def error_response_def)

lemma missing_named:
  assumes "f \<in> set required_fields" and "f \<notin> K"
  shows "str_in f (dumps (JObj [(str ''error'', JStr (str ''Missing required fields: ''
                  @ join (str '', '') (filter (\<lambda>f. f \<notin> K) required_fields)))]))"
proof -
  consider "f = str ''Busbreakdown ID''" | "f = str ''Route Number''" | "f = str ''Reason''"
    using assms(1) by (auto simp: required_fields_def)
  then show ?thesis
  proof cases
    case 1
    with assms(2) show ?thesis
      by (cases "str ''Route Number'' \<in> K"; cases "str ''Reason'' \<in> K")
         (simp_all add: required_fields_def str_def dumps_str_def escape_cp_def)
  next
    case 2
    with assms(2) show ?thesis
      by (cases "str ''Busbreakdown ID'' \<in> K"; cases "str ''Reason'' \<in> K")
         (simp_all add: required_fields_def str_def dumps_str_def escape_cp_def)
  next
    case 3
    with assms(2) show ?thesis
      by (cases "str ''Busbreakdown ID'' \<in> K"; cases "str ''Route Number'' \<in> K")
         (simp_all add: required_fields_def str_def dumps_str_def escape_cp_def)
  qed
qed

text \<open>
  C4. For a body that reads as a dict, validation fails exactly when a required field is
  absent; the handler then answers 400, makes no call to a collaborator, and the error
  text is "Missing required fields: " followed by all the absent names, so that every
  absent name occurs in the answer.
\<close>

theorem missing_fields_rejected:
  assumes b: "dict_get ev (str ''body'') = Some (JStr s)"
    and l: "loads (py_float e) s = Inr (JObj d)"
  shows "((\<exists>ex. validate_payload (JObj d) = Inl ex) = (\<exists>f \<in> set required_fields. f \<notin> set (map fst d)))
     \<and> ((\<exists>f \<in> set required_fields. f \<notin> set (map fst d)) \<longrightarrow>
          (\<exists>r. handler e w ev = (Inr r, w) \<and> statusCode r = 400
             \<and> body r = dumps (JObj [(str ''error'', JStr (str ''Missing required fields: ''
                       @ join (str '', '') (filter (\<lambda>f. f \<notin> set (map fst d)) required_fields)))])
             \<and> (\<forall>f \<in> set required_fields. f \<notin> set (map fst d) \<longrightarrow> str_in f (body r))))"
proof -
  let ?missing = "filter (\<lambda>f. f \<notin> set (map fst d)) required_fields"
  let ?msg = "str ''Missing required fields: '' @ join (str '', '') ?missing"
  have ne: "(?missing \<noteq> []) = (\<exists>f \<in> set required_fields. f \<notin> set (map fst d))"
    by (simp add: filter_empty_conv)
  have iff: "(\<exists>ex. validate_payload (JObj d) = Inl ex) = (\<exists>f \<in> set required_fields. f \<notin> set (map fst d))"
    unfolding validate_payload_dict ne [symmetric] by simp
  let ?r = "\<lparr>statusCode = 400, body = dumps (JObj [(str ''error'', JStr ?msg)])\<rparr>"
  have rej: "handler e w ev = (Inr ?r, w)"
    if "\<exists>f \<in> set required_fields. f \<notin> set (map fst d)"
  proof -
    from that ne have "validate_payload (JObj d) = Inl (ValueError ?msg)"
      unfolding validate_payload_dict by simp
    from handler_invalid [OF b l this] show ?thesis by (simp add: error_response_def)
  qed
  have named: "str_in f (body ?r)"
    if "f \<in> set required_fields" "f \<notin> set (map fst d)" for f
    using missing_named [OF that] by simp
  have "\<exists>r. handler e w ev = (Inr r, w) \<and> statusCode r = 400
          \<and> body r = dumps (JObj [(str ''error'', JStr ?msg)])
          \<and> (\<forall>f \<in> set required_fields. f \<notin> set (map fst d) \<longrightarrow> str_in f (body r))"
    if "\<exists>f \<in> set required_fields. f \<notin> set (map fst d)"
  proof (intro exI conjI)
    show "handler e w ev = (Inr ?r, w)" by (rule rej [OF that])
  qed (use named in simp_all)
  with iff show ?thesis by blast
qed

text \<open>C4 at a body that has only the route number: both other names are listed.\<close>

theorem missing_fields_rejected_witness:
  "dict_get (event_of no_reason_text) (str ''body'') = Some (JStr no_reason_text)
   \<and> loads (py_float quiet_env) no_reason_text = Inr (JObj no_reason_dict)
   \<and> (\<exists>f \<in> set required_fields. f \<notin> set (map fst no_reason_dict))
   \<and> (\<exists>ex. validate_payload (JObj no_reason_dict) = Inl ex)
   \<and> handler quiet_env no_calls (event_of no_reason_text) =
        (Inr \<lparr>statusCode = 400,
              body = str ''{\"error\": \"Missing required fields: Busbreakdown ID, Reason\"}''\<rparr>,
         no_calls)
   \<and> str_in (str ''Busbreakdown ID'')
        (str ''{\"error\": \"Missing required fields: Busbreakdown ID, Reason\"}'')
   \<and> str_in (str ''Reason'')
        (str ''{\"error\": \"Missing required fields: Busbreakdown ID, Reason\"}'')"
proof -
  have m: "filter (\<lambda>f. f \<notin> set (map fst no_reason_dict)) required_fields
           = [str ''Busbreakdown ID'', str ''Reason'']"
    by (simp add: no_reason_dict_def required_fields_def str_def)
  have ex: "\<exists>f \<in> set required_fields. f \<notin> set (map fst no_reason_dict)"
    by (simp add: no_reason_dict_def required_fields_def str_def)
  have bid: "str ''Busbreakdown ID'' \<in> set required_fields" "str ''Busbreakdown ID'' \<notin> set (map fst no_reason_dict)"
    and rs: "str ''Reason'' \<in> set required_fields" "str ''Reason'' \<notin> set (map fst no_reason_dict)"
    by (simp_all add: no_reason_dict_def required_fields_def str_def)
  have d: "dumps (JObj [(str ''error'', JStr (str ''Missing required fields: ''
                       @ join (str '', '') [str ''Busbreakdown ID'', str ''Reason'']))])
           = str ''{\"error\": \"Missing required fields: Busbreakdown ID, Reason\"}''"
    by (simp add: str_def dumps_str_def escape_cp_def)
  from missing_fields_rejected [OF event_of_body loads_no_reason, where w = no_calls] ex
  obtain r where v: "\<exists>ex. validate_payload (JObj no_reason_dict) = Inl ex"
    and h: "handler quiet_env no_calls (event_of no_reason_text) = (Inr r, no_calls)"
    and c: "statusCode r = 400"
    and t: "body r = str ''{\"error\": \"Missing required fields: Busbreakdown ID, Reason\"}''"
    and n: "\<forall>f \<in> set required_fields. f \<notin> set (map fst no_reason_dict) \<longrightarrow> str_in f (body r)"
    unfolding m d by blast
  from c t have r: "r = \<lparr>statusCode = 400,
              body = str ''{\"error\": \"Missing required fields: Busbreakdown ID, Reason\"}''\<rparr>"
    by (cases r) simp
  from n bid rs t have "str_in (str ''Busbreakdown ID'')
        (str ''{\"error\": \"Missing required fields: Busbreakdown ID, Reason\"}'')"
    and "str_in (str ''Reason'')
        (str ''{\"error\": \"Missing required fields: Busbreakdown ID, Reason\"}'')"
    by auto
  with event_of_body loads_no_reason ex v h r show ?thesis by blast
qed

end
